theory Spec2Isabelle
  imports Complex_Main "HOL-Library.Log_Nat"
begin

section \<open>Python values used by battery\_monitor.py\<close>

text \<open>
  The script computes with Python floats. Finite floats are modelled as exact reals:
  a decimal literal denotes its decimal value and arithmetic does not round. The
  special values (infinities, NaN) matter only for the comparisons of
  \<open>get_battery_status\<close>, which is a function any float can be passed to; the
  sensor drivers compute their readings from integer registers and return finite
  floats, so readings are reals. Where the rounding of the arithmetic decides what is
  displayed (the truncated percentages of pages 2 and 3), the iteration is modelled a
  second time in IEEE double arithmetic, see \<open>cycle_f64\<close>.
\<close>

datatype pyfloat = Finite real | PosInf | NegInf | NaN

text \<open>Python's \<open>x >= y\<close> on floats (IEEE 754: every comparison with NaN is false).\<close>

fun py_ge :: "pyfloat \<Rightarrow> pyfloat \<Rightarrow> bool" where
  "py_ge NaN y = False"
| "py_ge x NaN = False"
| "py_ge PosInf y = True"
| "py_ge x NegInf = True"
| "py_ge NegInf y = False"
| "py_ge x PosInf = False"
| "py_ge (Finite a) (Finite b) = (a \<ge> b)"

text \<open>
  Exceptions. \<open>Error msg\<close> stands for any exception derived from \<open>Exception\<close>
  (OSError of the I2C bus, ZeroDivisionError, ...), \<open>msg\<close> being \<open>str(e)\<close>.
  \<open>KeyboardInterrupt\<close> derives from \<open>BaseException\<close> only, so
  \<open>except Exception\<close> does not catch it.
\<close>

datatype exn = KeyboardInterrupt | Error string

text \<open>Python's float division \<open>a / b\<close>: it raises ZeroDivisionError when \<open>b\<close> is zero.\<close>

definition py_truediv :: "real \<Rightarrow> real \<Rightarrow> exn + real" where
  "py_truediv a b = (if b = 0 then Inl (Error ''float division by zero'') else Inr (a / b))"

text \<open>Python's \<open>int(x)\<close> on a float: truncation toward zero.\<close>

definition py_int :: "real \<Rightarrow> int" where
  "py_int x = (if 0 \<le> x then \<lfloor>x\<rfloor> else \<lceil>x\<rceil>)"

subsection \<open>String formatting\<close>

definition digit :: "nat \<Rightarrow> char" where
  "digit n = ''0123456789'' ! n"

fun str_nat :: "nat \<Rightarrow> string" where
  "str_nat n = (if n < 10 then [digit n] else str_nat (n div 10) @ [digit (n mod 10)])"

declare str_nat.simps [simp del]

text \<open>\<open>str(i)\<close> of a Python int, as the replacement field \<open>{int(soc)}\<close> prints it.\<close>

definition str_int :: "int \<Rightarrow> string" where
  "str_int i = (if i < 0 then CHR ''-'' # str_nat (nat (- i)) else str_nat (nat i))"

text \<open>
  Rounding to the nearest integer, ties to the even one: the rounding of the format
  specifications \<open>.0f\<close>, \<open>.1f\<close> and \<open>.2f\<close>.
\<close>

definition round_half_even :: "real \<Rightarrow> int" where
  "round_half_even x =
     (let f = \<lfloor>x\<rfloor>; r = x - of_int f
      in if r < 1/2 then f else if r > 1/2 then f + 1 else if even f then f else f + 1)"

text \<open>The digits after the decimal point: \<open>d\<close> of them, zero-padded on the left.\<close>

definition frac_digits :: "nat \<Rightarrow> nat \<Rightarrow> string" where
  "frac_digits d m = replicate (d - length (str_nat m)) (CHR ''0'') @ str_nat m"

text \<open>
  \<open>format(x, '.<d>f')\<close>: sign, integer digits and, when \<open>d > 0\<close>, a point and
  \<open>d\<close> decimals.
\<close>

definition fmt_f :: "nat \<Rightarrow> real \<Rightarrow> string" where
  "fmt_f d x =
     (let n = nat (round_half_even (\<bar>x\<bar> * 10 ^ d))
      in (if x < 0 then ''-'' else '''') @ str_nat (n div 10 ^ d) @
         (if d = 0 then '''' else CHR ''.'' # frac_digits d (n mod 10 ^ d)))"

text \<open>\<open>format(s, '<w')\<close>: left-justified in a field of at least \<open>w\<close> characters.\<close>

definition ljust :: "nat \<Rightarrow> string \<Rightarrow> string" where
  "ljust w s = s @ replicate (w - length s) (CHR '' '')"

section \<open>Configuration constants\<close>

text \<open>
  The module-level constants of the script (lines 9 to 14), gathered in a record so
  that statements about other calibrations can be made; \<open>reference_config\<close> holds
  the values the script is shipped with.
\<close>

record config =
  PAGE_DELAY :: real
  SHUNT_RESISTANCE :: real
  VOLTAGE_HEALTHY :: real
  VOLTAGE_MODERATE :: real
  MAX_VOLTAGE :: real
  MIN_VOLTAGE :: real

definition reference_config :: config where
  "reference_config =
     \<lparr> PAGE_DELAY = 5, SHUNT_RESISTANCE = 0.1, VOLTAGE_HEALTHY = 11.5,
       VOLTAGE_MODERATE = 10.5, MAX_VOLTAGE = 12.6, MIN_VOLTAGE = 9.0 \<rparr>"

text \<open>The display is constructed with \<open>cols=16, rows=2\<close> (line 20).\<close>

definition LCD_COLS :: nat where
  "LCD_COLS = 16"

section \<open>Derived metrics\<close>

definition get_battery_status :: "config \<Rightarrow> pyfloat \<Rightarrow> string" where
  "get_battery_status cfg voltage =
     (if py_ge voltage (Finite (VOLTAGE_HEALTHY cfg)) then ''Healthy''
      else if py_ge voltage (Finite (VOLTAGE_MODERATE cfg)) then ''Moderate''
      else ''Critical'')"

text \<open>Line 40: \<open>(bus_v / current_a) if current_a > 0.0001 else 0.0\<close>.\<close>

definition impedance :: "real \<Rightarrow> real \<Rightarrow> exn + real" where
  "impedance bus_v current_a =
     (if current_a > 0.0001 then py_truediv bus_v current_a else Inr 0)"

text \<open>Line 41: \<open>max(0, min(100, (bus_v - MIN_VOLTAGE)/(MAX_VOLTAGE-MIN_VOLTAGE)*100))\<close>.\<close>

definition soc :: "config \<Rightarrow> real \<Rightarrow> exn + real" where
  "soc cfg bus_v =
     (case py_truediv (bus_v - MIN_VOLTAGE cfg) (MAX_VOLTAGE cfg - MIN_VOLTAGE cfg) of
        Inl e \<Rightarrow> Inl e
      | Inr q \<Rightarrow> Inr (max 0 (min 100 (q * 100))))"

text \<open>Line 42: \<open>100 - soc\<close>.\<close>

definition dod :: "real \<Rightarrow> real" where
  "dod s = 100 - s"

section \<open>The collaborators: sensors, display, sleep, standard output\<close>

text \<open>
  The attributes \<open>ina219.bus_voltage\<close>, \<open>ina219.current\<close>, \<open>aht25.temperature\<close>
  and \<open>aht25.relative_humidity\<close> are driver properties: every access is a fresh
  I2C transaction that returns a reading or raises. The environment says what the
  k-th access of each property returns, what the k-th call of the display driver does
  (\<open>None\<close>: it succeeds) and what the k-th \<open>time.sleep\<close> does. The model starts after
  the module-level construction of the bus and the three drivers (lines 17 to 20) has
  succeeded, and lets exceptions arise at the calls of the collaborators.
\<close>

record env =
  bus_voltage_at :: "nat \<Rightarrow> exn + real"
  current_at :: "nat \<Rightarrow> exn + real"
  temperature_at :: "nat \<Rightarrow> exn + real"
  relative_humidity_at :: "nat \<Rightarrow> exn + real"
  lcd_at :: "nat \<Rightarrow> exn option"
  sleep_at :: "nat \<Rightarrow> exn option"

datatype lcd_op = Clear | WriteString string | Crlf

text \<open>
  The state of the process: the global \<open>page\<close>, how often each collaborator has
  been called, the display driver calls that succeeded (oldest first) and the lines
  printed.
\<close>

record state =
  page :: int
  bus_voltage_reads :: nat
  current_reads :: nat
  temperature_reads :: nat
  relative_humidity_reads :: nat
  lcd_calls :: nat
  sleeps :: nat
  lcd_log :: "lcd_op list"
  stdout :: "string list"

type_synonym 'a io = "state \<Rightarrow> (exn + 'a) \<times> state"

definition io_bind :: "'a io \<Rightarrow> ('a \<Rightarrow> 'b io) \<Rightarrow> 'b io" where
  "io_bind m f s = (case m s of (Inl e, s') \<Rightarrow> (Inl e, s') | (Inr x, s') \<Rightarrow> f x s')"

definition io_lift :: "exn + 'a \<Rightarrow> 'a io" where
  "io_lift r s = (r, s)"

definition ina219_bus_voltage :: "env \<Rightarrow> real io" where
  "ina219_bus_voltage e s =
     (bus_voltage_at e (bus_voltage_reads s), s\<lparr>bus_voltage_reads := Suc (bus_voltage_reads s)\<rparr>)"

definition ina219_current :: "env \<Rightarrow> real io" where
  "ina219_current e s =
     (current_at e (current_reads s), s\<lparr>current_reads := Suc (current_reads s)\<rparr>)"

definition aht25_temperature :: "env \<Rightarrow> real io" where
  "aht25_temperature e s =
     (temperature_at e (temperature_reads s), s\<lparr>temperature_reads := Suc (temperature_reads s)\<rparr>)"

definition aht25_relative_humidity :: "env \<Rightarrow> real io" where
  "aht25_relative_humidity e s =
     (relative_humidity_at e (relative_humidity_reads s),
      s\<lparr>relative_humidity_reads := Suc (relative_humidity_reads s)\<rparr>)"

definition lcd_call :: "env \<Rightarrow> lcd_op \<Rightarrow> unit io" where
  "lcd_call e c s =
     (case lcd_at e (lcd_calls s) of
        Some x \<Rightarrow> (Inl x, s\<lparr>lcd_calls := Suc (lcd_calls s)\<rparr>)
      | None \<Rightarrow> (Inr (), s\<lparr>lcd_calls := Suc (lcd_calls s), lcd_log := lcd_log s @ [c]\<rparr>))"

definition lcd_clear :: "env \<Rightarrow> unit io" where
  "lcd_clear e = lcd_call e Clear"

definition lcd_write_string :: "env \<Rightarrow> string \<Rightarrow> unit io" where
  "lcd_write_string e str = lcd_call e (WriteString str)"

definition lcd_crlf :: "env \<Rightarrow> unit io" where
  "lcd_crlf e = lcd_call e Crlf"

definition time_sleep :: "env \<Rightarrow> real \<Rightarrow> unit io" where
  "time_sleep e secs s =
     (case sleep_at e (sleeps s) of
        Some x \<Rightarrow> (Inl x, s\<lparr>sleeps := Suc (sleeps s)\<rparr>)
      | None \<Rightarrow> (Inr (), s\<lparr>sleeps := Suc (sleeps s)\<rparr>))"

definition py_print :: "string \<Rightarrow> unit io" where
  "py_print str s = (Inr (), s\<lparr>stdout := stdout s @ [str]\<rparr>)"

definition set_page :: "int \<Rightarrow> unit io" where
  "set_page p s = (Inr (), s\<lparr>page := p\<rparr>)"

section \<open>The page display block\<close>

text \<open>The strings of lines 50 to 64.\<close>

definition battery_line :: "string \<Rightarrow> string" where
  "battery_line status = ''Battery:'' @ ljust 7 status"

definition page0_line2 :: "real \<Rightarrow> real \<Rightarrow> string" where
  "page0_line2 bus_v cur = ''V:'' @ fmt_f 2 bus_v @ '' I:'' @ fmt_f 0 cur @ ''mA''"

definition page1_line2 :: "real \<Rightarrow> real \<Rightarrow> string" where
  "page1_line2 temp hum = ''T:'' @ fmt_f 1 temp @ '' H:'' @ fmt_f 0 hum @ ''%''"

definition page2_line2 :: "real \<Rightarrow> string" where
  "page2_line2 soc_v = ''SOC:'' @ str_int (py_int soc_v) @ ''% SOH:OFF''"

definition page3_line2 :: "real \<Rightarrow> real \<Rightarrow> string" where
  "page3_line2 dod_v imp = ''DOD:'' @ str_int (py_int dod_v) @ ''% Z:'' @ fmt_f 1 imp @ ''R''"

text \<open>
  Lines 49 to 64. On page 0 the second line reads \<open>ina219.current\<close> again, after the
  first line and the line break have been sent. A page outside 0..3 matches no branch
  and writes nothing.
\<close>

definition show_page ::
  "env \<Rightarrow> int \<Rightarrow> string \<Rightarrow> real \<Rightarrow> real \<Rightarrow> real \<Rightarrow> real \<Rightarrow> real \<Rightarrow> real \<Rightarrow> unit io" where
  "show_page e p status bus_v imp soc_v dod_v temp hum =
     (if p = 0 then
        io_bind (lcd_write_string e (battery_line status)) (\<lambda>_.
        io_bind (lcd_crlf e) (\<lambda>_.
        io_bind (ina219_current e) (\<lambda>cur.
        lcd_write_string e (page0_line2 bus_v cur))))
      else if p = 1 then
        io_bind (lcd_write_string e (battery_line status)) (\<lambda>_.
        io_bind (lcd_crlf e) (\<lambda>_.
        lcd_write_string e (page1_line2 temp hum)))
      else if p = 2 then
        io_bind (lcd_write_string e ''SVM:OFF'') (\<lambda>_.
        io_bind (lcd_crlf e) (\<lambda>_.
        lcd_write_string e (page2_line2 soc_v)))
      else if p = 3 then
        io_bind (lcd_write_string e ''SVM:OFF'') (\<lambda>_.
        io_bind (lcd_crlf e) (\<lambda>_.
        lcd_write_string e (page3_line2 dod_v imp)))
      else io_lift (Inr ()))"

section \<open>The monitoring loop\<close>

text \<open>One iteration of \<open>while True\<close> (lines 37 to 67).\<close>

definition cycle :: "config \<Rightarrow> env \<Rightarrow> unit io" where
  "cycle cfg e =
     io_bind (ina219_bus_voltage e) (\<lambda>bus_v.
     io_bind (ina219_current e) (\<lambda>cur.
     io_bind (io_lift (impedance bus_v (cur / 1000))) (\<lambda>imp.
     io_bind (io_lift (soc cfg bus_v)) (\<lambda>soc_v.
     io_bind (aht25_temperature e) (\<lambda>temp.
     io_bind (aht25_relative_humidity e) (\<lambda>hum.
     io_bind (lcd_clear e) (\<lambda>_.
     io_bind (\<lambda>s. show_page e (page s) (get_battery_status cfg (Finite bus_v))
                      bus_v imp soc_v (dod soc_v) temp hum s) (\<lambda>_.
     io_bind (\<lambda>s. set_page ((page s + 1) mod 4) s) (\<lambda>_.
     time_sleep e (PAGE_DELAY cfg))))))))))"

text \<open>
  The loop never ends by itself. \<open>loop cfg e n\<close> runs at most \<open>n\<close> iterations:
  \<open>None\<close> when all of them completed (the loop is still running), \<open>Some x\<close> when
  an iteration raised \<open>x\<close>, which ends the loop.
\<close>

fun loop :: "config \<Rightarrow> env \<Rightarrow> nat \<Rightarrow> state \<Rightarrow> exn option \<times> state" where
  "loop cfg e 0 s = (None, s)"
| "loop cfg e (Suc n) s =
     (case cycle cfg e s of
        (Inl x, s') \<Rightarrow> (Some x, s')
      | (Inr _, s') \<Rightarrow> loop cfg e n s')"

text \<open>
  How the process stands: still in the loop; ended by reaching the end of the script
  (exit status 0); or ended by an exception nothing caught (traceback, non-zero exit
  status).
\<close>

datatype outcome = Running | Finished | Uncaught exn

definition failure_status :: "outcome \<Rightarrow> bool" where
  "failure_status out = (case out of Uncaught x \<Rightarrow> True | _ \<Rightarrow> False)"

definition initial_state :: state where
  "initial_state =
     \<lparr> page = 0, bus_voltage_reads = 0, current_reads = 0, temperature_reads = 0,
       relative_humidity_reads = 0, lcd_calls = 0, sleeps = 0, lcd_log = [], stdout = [] \<rparr>"

text \<open>Lines 69 to 72 and 73 to 76: the two handlers.\<close>

definition on_keyboard_interrupt :: "env \<Rightarrow> unit io" where
  "on_keyboard_interrupt e =
     io_bind (lcd_clear e) (\<lambda>_.
     io_bind (lcd_write_string e ''System Stopped'') (\<lambda>_.
     py_print ''Battery monitoring stopped by user''))"

definition on_exception :: "env \<Rightarrow> string \<Rightarrow> unit io" where
  "on_exception e msg =
     io_bind (lcd_clear e) (\<lambda>_.
     io_bind (lcd_write_string e ''Error Occurred'') (\<lambda>_.
     py_print (''Error: '' @ msg)))"

definition finish :: "(exn + unit) \<times> state \<Rightarrow> outcome \<times> state" where
  "finish r = (case r of (Inl x, s) \<Rightarrow> (Uncaught x, s) | (Inr _, s) \<Rightarrow> (Finished, s))"

text \<open>The state in which the loop is entered: \<open>page = 0\<close> and the start message printed.\<close>

definition started :: state where
  "started = snd (py_print ''Battery monitoring system started...'' initial_state)"

text \<open>Lines 32 to 76, with at most \<open>n\<close> iterations of the loop.\<close>

definition main :: "config \<Rightarrow> env \<Rightarrow> nat \<Rightarrow> outcome \<times> state" where
  "main cfg e n =
     (case loop cfg e n started of
        (None, s) \<Rightarrow> (Running, s)
      | (Some KeyboardInterrupt, s) \<Rightarrow> finish (on_keyboard_interrupt e s)
      | (Some (Error msg), s) \<Rightarrow> finish (on_exception e msg s))"

section \<open>The iteration in IEEE double arithmetic\<close>

text \<open>
  Python floats are IEEE binary64 numbers and every arithmetic operation rounds its
  exact result to the nearest double, ties to the even significand. A double with
  binary exponent \<open>e\<close> is a multiple of \<open>2 ^ (e - 52)\<close>; below the smallest normal
  number the exponent stays at -1022. \<open>exponent x\<close> is the \<open>e\<close> with
  \<open>2 ^ e \<le> \<bar>x\<bar> < 2 ^ (e + 1)\<close>, read off the integer part of \<open>\<bar>x\<bar>\<close> (or of its
  inverse, below 1). Overflow to infinity is not modelled: the clamp of line 41 gives
  the same state of charge for an infinity as for a finite number beyond the bounds.
\<close>

definition exponent :: "real \<Rightarrow> int" where
  "exponent x =
     max (- 1022) (if 1 \<le> \<bar>x\<bar> then bitlen \<lfloor>\<bar>x\<bar>\<rfloor> - 1 else - bitlen (\<lceil>1 / \<bar>x\<bar>\<rceil> - 1))"

definition ulp :: "real \<Rightarrow> real" where
  "ulp x = 2 powi (exponent x - 52)"

text \<open>The double nearest to \<open>x\<close>.\<close>

definition fl :: "real \<Rightarrow> real" where
  "fl x = (if x = 0 then 0 else of_int (round_half_even (x / ulp x)) * ulp x)"

text \<open>The constants as the interpreter reads their decimal literals.\<close>

definition double_config :: "config \<Rightarrow> config" where
  "double_config cfg =
     \<lparr> PAGE_DELAY = fl (PAGE_DELAY cfg), SHUNT_RESISTANCE = fl (SHUNT_RESISTANCE cfg),
       VOLTAGE_HEALTHY = fl (VOLTAGE_HEALTHY cfg), VOLTAGE_MODERATE = fl (VOLTAGE_MODERATE cfg),
       MAX_VOLTAGE = fl (MAX_VOLTAGE cfg), MIN_VOLTAGE = fl (MIN_VOLTAGE cfg) \<rparr>"

text \<open>
  Line 40 on doubles; \<open>current_a\<close> is the rounded quotient of line 39 and \<open>0.0001\<close>
  the double nearest to that literal.
\<close>

definition impedance_f64 :: "real \<Rightarrow> real \<Rightarrow> exn + real" where
  "impedance_f64 bus_v current_a =
     (if current_a > fl 0.0001
      then (case py_truediv bus_v current_a of Inl e \<Rightarrow> Inl e | Inr q \<Rightarrow> Inr (fl q))
      else Inr 0)"

text \<open>
  Line 41 on doubles: the difference, the divisor, the quotient and the product are
  each rounded, in the order the expression is evaluated.
\<close>

definition soc_f64 :: "config \<Rightarrow> real \<Rightarrow> exn + real" where
  "soc_f64 cfg bus_v =
     (case py_truediv (fl (bus_v - MIN_VOLTAGE (double_config cfg)))
             (fl (MAX_VOLTAGE (double_config cfg) - MIN_VOLTAGE (double_config cfg))) of
        Inl e \<Rightarrow> Inl e
      | Inr q \<Rightarrow> Inr (max 0 (min 100 (fl (fl q * 100)))))"

text \<open>Line 42 on doubles.\<close>

definition dod_f64 :: "real \<Rightarrow> real" where
  "dod_f64 s = fl (100 - s)"

text \<open>Lines 37 to 67 with the arithmetic of lines 39 to 42 on doubles.\<close>

definition cycle_f64 :: "config \<Rightarrow> env \<Rightarrow> unit io" where
  "cycle_f64 cfg e =
     io_bind (ina219_bus_voltage e) (\<lambda>bus_v.
     io_bind (ina219_current e) (\<lambda>cur.
     io_bind (io_lift (impedance_f64 bus_v (fl (cur / 1000)))) (\<lambda>imp.
     io_bind (io_lift (soc_f64 cfg bus_v)) (\<lambda>soc_v.
     io_bind (aht25_temperature e) (\<lambda>temp.
     io_bind (aht25_relative_humidity e) (\<lambda>hum.
     io_bind (lcd_clear e) (\<lambda>_.
     io_bind (\<lambda>s. show_page e (page s)
                      (get_battery_status (double_config cfg) (Finite bus_v))
                      bus_v imp soc_v (dod_f64 soc_v) temp hum s) (\<lambda>_.
     io_bind (\<lambda>s. set_page ((page s + 1) mod 4) s) (\<lambda>_.
     time_sleep e (PAGE_DELAY cfg))))))))))"

section \<open>Sample configurations and environments\<close>

text \<open>Calibration bounds the wrong way round, and equal bounds.\<close>

definition inverted_config :: config where
  "inverted_config = reference_config\<lparr>MAX_VOLTAGE := 9.0, MIN_VOLTAGE := 12.6\<rparr>"

definition flat_config :: config where
  "flat_config = reference_config\<lparr>MAX_VOLTAGE := 9.0, MIN_VOLTAGE := 9.0\<rparr>"

text \<open>
  Collaborators that never fail, with constant readings: 12.0 V, 500 mA, 25.0 degrees,
  40 percent.
\<close>

definition steady_env :: env where
  "steady_env =
     \<lparr> bus_voltage_at = (\<lambda>k. Inr 12), current_at = (\<lambda>k. Inr 500),
       temperature_at = (\<lambda>k. Inr 25), relative_humidity_at = (\<lambda>k. Inr 40),
       lcd_at = (\<lambda>k. None), sleep_at = (\<lambda>k. None) \<rparr>"

text \<open>The current changes between two accesses: 500 mA first, 700 mA afterwards.\<close>

definition drifting_env :: env where
  "drifting_env = steady_env\<lparr>current_at := (\<lambda>k. if k = 0 then Inr 500 else Inr 700)\<rparr>"

text \<open>The battery is being charged with 1.5 A: the current is negative.\<close>

definition charging_env :: env where
  "charging_env = steady_env\<lparr>current_at := (\<lambda>k. Inr (- 1500))\<rparr>"

text \<open>The second read of the temperature fails on the bus.\<close>

definition sensor_fault_env :: env where
  "sensor_fault_env =
     steady_env\<lparr>temperature_at :=
       (\<lambda>k. if k = 1 then Inl (Error ''[Errno 121] Remote I/O error'') else Inr 25)\<rparr>"

text \<open>A display that fails at every call, and one that fails at its second and fourth call.\<close>

definition dead_display_env :: env where
  "dead_display_env = steady_env\<lparr>lcd_at := (\<lambda>k. Some (Error ''[Errno 5] Input/output error''))\<rparr>"

definition flaky_display_env :: env where
  "flaky_display_env =
     steady_env\<lparr>lcd_at :=
       (\<lambda>k. if k = 1 \<or> k = 3 then Some (Error ''[Errno 5] Input/output error'') else None)\<rparr>"

text \<open>The bus voltage has sagged to the double nearest to 10.8 V.\<close>

definition sagging_env :: env where
  "sagging_env = steady_env\<lparr>bus_voltage_at := (\<lambda>k. Inr (fl 10.8))\<rparr>"

section \<open>Auxiliary facts\<close>

lemmas run_defs = cycle_def show_page_def io_bind_def io_lift_def ina219_bus_voltage_def
  ina219_current_def aht25_temperature_def aht25_relative_humidity_def lcd_call_def lcd_clear_def
  lcd_write_string_def lcd_crlf_def time_sleep_def py_print_def set_page_def
  impedance_def soc_def dod_def py_truediv_def get_battery_status_def

lemmas fmt_defs = fmt_f_def round_half_even_def str_nat.simps frac_digits_def digit_def str_int_def
  py_int_def ljust_def battery_line_def page0_line2_def page1_line2_def page2_line2_def
  page3_line2_def

lemmas start_defs = reference_config_def steady_env_def started_def initial_state_def

subsection \<open>Steps that complete\<close>

lemma io_bind_Inr:
  "io_bind m f s = (Inr y, s') \<longleftrightarrow> (\<exists>x s1. m s = (Inr x, s1) \<and> f x s1 = (Inr y, s'))"
  by (auto simp: io_bind_def split: prod.splits sum.splits)

lemma io_lift_Inr: "io_lift r s = (Inr y, s') \<longleftrightarrow> r = Inr y \<and> s' = s"
  by (auto simp: io_lift_def)

lemma lcd_call_Inr:
  "lcd_call e c s = (Inr y, s') \<longleftrightarrow>
     lcd_at e (lcd_calls s) = None \<and> s' = s\<lparr>lcd_calls := Suc (lcd_calls s), lcd_log := lcd_log s @ [c]\<rparr>"
  by (auto simp: lcd_call_def split: option.splits)

lemma time_sleep_Inr:
  "time_sleep e d s = (Inr y, s') \<longleftrightarrow> sleep_at e (sleeps s) = None \<and> s' = s\<lparr>sleeps := Suc (sleeps s)\<rparr>"
  by (auto simp: time_sleep_def split: option.splits)

lemma read_Inr:
  "ina219_bus_voltage e s = (Inr x, s') \<longleftrightarrow>
     bus_voltage_at e (bus_voltage_reads s) = Inr x \<and> s' = s\<lparr>bus_voltage_reads := Suc (bus_voltage_reads s)\<rparr>"
  "ina219_current e s = (Inr x, s') \<longleftrightarrow>
     current_at e (current_reads s) = Inr x \<and> s' = s\<lparr>current_reads := Suc (current_reads s)\<rparr>"
  "aht25_temperature e s = (Inr x, s') \<longleftrightarrow>
     temperature_at e (temperature_reads s) = Inr x \<and> s' = s\<lparr>temperature_reads := Suc (temperature_reads s)\<rparr>"
  "aht25_relative_humidity e s = (Inr x, s') \<longleftrightarrow>
     relative_humidity_at e (relative_humidity_reads s) = Inr x
     \<and> s' = s\<lparr>relative_humidity_reads := Suc (relative_humidity_reads s)\<rparr>"
  by (auto simp: ina219_bus_voltage_def ina219_current_def aht25_temperature_def aht25_relative_humidity_def)

lemma set_page_Inr: "set_page p s = (Inr y, s') \<longleftrightarrow> s' = s\<lparr>page := p\<rparr>"
  by (auto simp: set_page_def)

lemmas io_Inr = io_bind_Inr io_lift_Inr lcd_call_Inr time_sleep_Inr read_Inr set_page_Inr
  lcd_clear_def lcd_write_string_def lcd_crlf_def

text \<open>What a page display block that completes has done.\<close>

lemma show_page_Inr:
  assumes "show_page e p status bus_v imp soc_v dod_v temp hum s = (Inr y, s')"
  shows "(p = 0 \<longrightarrow> (\<exists>cur2. current_at e (current_reads s) = Inr cur2
            \<and> s' = s\<lparr>current_reads := Suc (current_reads s), lcd_calls := lcd_calls s + 3,
                  lcd_log := lcd_log s @ [WriteString (battery_line status), Crlf,
                                           WriteString (page0_line2 bus_v cur2)]\<rparr>))
       \<and> (p = 1 \<longrightarrow> s' = s\<lparr>lcd_calls := lcd_calls s + 3,
                  lcd_log := lcd_log s @ [WriteString (battery_line status), Crlf,
                                           WriteString (page1_line2 temp hum)]\<rparr>)
       \<and> (p = 2 \<longrightarrow> s' = s\<lparr>lcd_calls := lcd_calls s + 3,
                  lcd_log := lcd_log s @ [WriteString ''SVM:OFF'', Crlf,
                                           WriteString (page2_line2 soc_v)]\<rparr>)
       \<and> (p = 3 \<longrightarrow> s' = s\<lparr>lcd_calls := lcd_calls s + 3,
                  lcd_log := lcd_log s @ [WriteString ''SVM:OFF'', Crlf,
                                           WriteString (page3_line2 dod_v imp)]\<rparr>)
       \<and> (p \<notin> {0, 1, 2, 3} \<longrightarrow> s' = s)"
  using assms by (auto simp: show_page_def io_Inr)


lemma cycle_Inr:
  assumes "cycle cfg e s = (Inr y, s')"
  shows "\<exists>bus_v cur imp soc_v temp hum s2.
     bus_voltage_at e (bus_voltage_reads s) = Inr bus_v
     \<and> current_at e (current_reads s) = Inr cur
     \<and> impedance bus_v (cur / 1000) = Inr imp
     \<and> soc cfg bus_v = Inr soc_v
     \<and> temperature_at e (temperature_reads s) = Inr temp
     \<and> relative_humidity_at e (relative_humidity_reads s) = Inr hum
     \<and> lcd_at e (lcd_calls s) = None
     \<and> show_page e (page s) (get_battery_status cfg (Finite bus_v)) bus_v imp soc_v (dod soc_v)
          temp hum
          (s\<lparr>bus_voltage_reads := Suc (bus_voltage_reads s), current_reads := Suc (current_reads s),
             temperature_reads := Suc (temperature_reads s),
             relative_humidity_reads := Suc (relative_humidity_reads s),
             lcd_calls := Suc (lcd_calls s), lcd_log := lcd_log s @ [Clear]\<rparr>) = (Inr (), s2)
     \<and> sleep_at e (sleeps s2) = None
     \<and> s' = s2\<lparr>page := (page s2 + 1) mod 4, sleeps := Suc (sleeps s2)\<rparr>"
  using assms unfolding cycle_def io_Inr by auto

text \<open>What an iteration that completes has read, written and counted.\<close>

lemma cycle_effect:
  assumes "cycle cfg e s = (Inr y, s')"
  obtains bus_v cur imp soc_v temp hum where
    "bus_voltage_at e (bus_voltage_reads s) = Inr bus_v"
    "current_at e (current_reads s) = Inr cur"
    "impedance bus_v (cur / 1000) = Inr imp"
    "soc cfg bus_v = Inr soc_v"
    "temperature_at e (temperature_reads s) = Inr temp"
    "relative_humidity_at e (relative_humidity_reads s) = Inr hum"
    "page s = 0 \<Longrightarrow> \<exists>cur2. current_at e (Suc (current_reads s)) = Inr cur2
       \<and> lcd_log s' = lcd_log s @
            [Clear, WriteString (battery_line (get_battery_status cfg (Finite bus_v))), Crlf,
             WriteString (page0_line2 bus_v cur2)]"
    "page s = 1 \<Longrightarrow> lcd_log s' = lcd_log s @
            [Clear, WriteString (battery_line (get_battery_status cfg (Finite bus_v))), Crlf,
             WriteString (page1_line2 temp hum)]"
    "page s = 2 \<Longrightarrow> lcd_log s' = lcd_log s @
            [Clear, WriteString ''SVM:OFF'', Crlf, WriteString (page2_line2 soc_v)]"
    "page s = 3 \<Longrightarrow> lcd_log s' = lcd_log s @
            [Clear, WriteString ''SVM:OFF'', Crlf, WriteString (page3_line2 (dod soc_v) imp)]"
    "page s \<notin> {0, 1, 2, 3} \<Longrightarrow> lcd_log s' = lcd_log s @ [Clear]"
    "current_reads s' = (if page s = 0 then current_reads s + 2 else current_reads s + 1)"
    "bus_voltage_reads s' = bus_voltage_reads s + 1"
    "temperature_reads s' = temperature_reads s + 1"
    "relative_humidity_reads s' = relative_humidity_reads s + 1"
    "sleeps s' = sleeps s + 1"
    "stdout s' = stdout s"
    "page s' = (page s + 1) mod 4"
proof -
  from cycle_Inr [OF assms] obtain bus_v cur imp soc_v temp hum s2 where
    r: "bus_voltage_at e (bus_voltage_reads s) = Inr bus_v"
       "current_at e (current_reads s) = Inr cur"
       "impedance bus_v (cur / 1000) = Inr imp"
       "soc cfg bus_v = Inr soc_v"
       "temperature_at e (temperature_reads s) = Inr temp"
       "relative_humidity_at e (relative_humidity_reads s) = Inr hum"
    and sp: "show_page e (page s) (get_battery_status cfg (Finite bus_v)) bus_v imp soc_v (dod soc_v)
          temp hum
          (s\<lparr>bus_voltage_reads := Suc (bus_voltage_reads s), current_reads := Suc (current_reads s),
             temperature_reads := Suc (temperature_reads s),
             relative_humidity_reads := Suc (relative_humidity_reads s),
             lcd_calls := Suc (lcd_calls s), lcd_log := lcd_log s @ [Clear]\<rparr>) = (Inr (), s2)"
    and s': "s' = s2\<lparr>page := (page s2 + 1) mod 4, sleeps := Suc (sleeps s2)\<rparr>"
    by blast
  note sh = show_page_Inr [OF sp]
  consider "page s = 0" | "page s = 1" | "page s = 2" | "page s = 3" | "page s \<notin> {0, 1, 2, 3}"
    by auto
  then show thesis
  proof cases
    case 1
    with sh obtain cur2 where c2: "current_at e (Suc (current_reads s)) = Inr cur2"
      and "s2 = s\<lparr>bus_voltage_reads := Suc (bus_voltage_reads s), current_reads := Suc (current_reads s),
             temperature_reads := Suc (temperature_reads s),
             relative_humidity_reads := Suc (relative_humidity_reads s),
             lcd_calls := Suc (lcd_calls s), lcd_log := lcd_log s @ [Clear]\<rparr>
            \<lparr>current_reads := Suc (Suc (current_reads s)), lcd_calls := Suc (lcd_calls s) + 3,
             lcd_log := (lcd_log s @ [Clear]) @
               [WriteString (battery_line (get_battery_status cfg (Finite bus_v))), Crlf,
                WriteString (page0_line2 bus_v cur2)]\<rparr>"
      by auto
    with 1 s' show ?thesis
      by (intro that [of bus_v cur imp soc_v temp hum] r) simp_all
  next
    case 2
    with sh s' show ?thesis
      by (intro that [of bus_v cur imp soc_v temp hum] r) simp_all
  next
    case 3
    with sh s' show ?thesis
      by (intro that [of bus_v cur imp soc_v temp hum] r) simp_all
  next
    case 4
    with sh s' show ?thesis
      by (intro that [of bus_v cur imp soc_v temp hum] r) simp_all
  next
    case 5
    with sh s' show ?thesis
      by (intro that [of bus_v cur imp soc_v temp hum] r) simp_all
  qed
qed

subsection \<open>Lengths of the formatted strings\<close>

lemma length_str_nat: "0 < k \<Longrightarrow> n < 10 ^ k \<Longrightarrow> length (str_nat n) \<le> k"
proof (induction n arbitrary: k rule: str_nat.induct)
  case (1 n)
  show ?case
  proof (cases "n < 10")
    case True
    with 1(2) show ?thesis by (simp add: str_nat.simps [of n])
  next
    case False
    obtain j where k: "k = Suc j" using 1(2) by (cases k) auto
    have "j \<noteq> 0" using False 1(3) k by (cases j) auto
    then have j: "0 < j" by simp
    have "n div 10 < 10 ^ j" using 1(3) k by (simp add: less_mult_imp_div_less mult.commute)
    from 1(1) [OF False j this] show ?thesis
      using False k by (simp add: str_nat.simps [of n])
  qed
qed

lemma round_half_even_less: "y < of_int N - 1/2 \<Longrightarrow> round_half_even y < N"
  unfolding round_half_even_def Let_def by (auto; linarith)

lemma length_frac_digits: "0 < d \<Longrightarrow> m < 10 ^ d \<Longrightarrow> length (frac_digits d m) = d"
  using length_str_nat [of d m] by (simp add: frac_digits_def)

lemma length_fmt_f:
  assumes "0 < k" and "\<bar>x\<bar> * 10 ^ d < 10 ^ (k + d) - 1/2"
  shows "length (fmt_f d x) \<le> (if x < 0 then 1 else 0) + k + (if d = 0 then 0 else Suc d)"
proof -
  define n where "n = nat (round_half_even (\<bar>x\<bar> * 10 ^ d))"
  have "round_half_even (\<bar>x\<bar> * 10 ^ d) < 10 ^ (k + d)"
    using assms(2) round_half_even_less [of "\<bar>x\<bar> * 10 ^ d" "10 ^ (k + d)"] by simp
  then have "n < 10 ^ (k + d)"
    unfolding n_def by (simp add: nat_less_iff)
  then have "n div 10 ^ d < 10 ^ k"
    by (simp add: less_mult_imp_div_less power_add)
  then have a: "length (str_nat (n div 10 ^ d)) \<le> k"
    by (rule length_str_nat [OF assms(1)])
  have b: "0 < d \<Longrightarrow> length (frac_digits d (n mod 10 ^ d)) = d"
    by (rule length_frac_digits) simp_all
  show ?thesis
    using a b unfolding fmt_f_def n_def [symmetric] Let_def by auto
qed

lemma length_str_int: "0 \<le> i \<Longrightarrow> i \<le> 100 \<Longrightarrow> length (str_int i) \<le> 3"
  using length_str_nat [of 3 "nat i"] by (simp add: str_int_def)

lemma length_battery_line:
  "length (battery_line (get_battery_status cfg x)) \<le> 16"
  by (simp add: battery_line_def get_battery_status_def ljust_def)

lemma length_page0_line2:
  assumes "0 \<le> bus_v" "bus_v < 99.995" "- 999.5 < cur" "cur < 9999.5"
  shows "length (page0_line2 bus_v cur) \<le> 16"
proof -
  have v: "length (fmt_f 2 bus_v) \<le> 5"
    using length_fmt_f [of 2 bus_v 2] assms(1,2) by simp
  have c: "length (fmt_f 0 cur) \<le> 4"
  proof (cases "cur < 0")
    case True
    then show ?thesis using length_fmt_f [of 3 cur 0] assms(3) by simp
  next
    case False
    then show ?thesis using length_fmt_f [of 4 cur 0] assms(4) by simp
  qed
  show ?thesis using v c by (simp add: page0_line2_def)
qed

lemma length_page1_line2:
  assumes "- 9999.95 < temp" "temp < 99999.95" "- 99.5 < hum" "hum < 999.5"
  shows "length (page1_line2 temp hum) \<le> 16"
proof -
  have t: "length (fmt_f 1 temp) \<le> 7"
  proof (cases "temp < 0")
    case True
    then show ?thesis using length_fmt_f [of 4 temp 1] assms(1) by simp
  next
    case False
    then show ?thesis using length_fmt_f [of 5 temp 1] assms(2) by simp
  qed
  have h: "length (fmt_f 0 hum) \<le> 3"
  proof (cases "hum < 0")
    case True
    then show ?thesis using length_fmt_f [of 2 hum 0] assms(3) by simp
  next
    case False
    then show ?thesis using length_fmt_f [of 3 hum 0] assms(4) by simp
  qed
  show ?thesis using t h by (simp add: page1_line2_def)
qed

lemma py_int_range: "0 \<le> x \<Longrightarrow> x \<le> 100 \<Longrightarrow> 0 \<le> py_int x \<and> py_int x \<le> 100"
  by (simp add: py_int_def floor_le_iff)

lemma length_page2_line2:
  assumes "0 \<le> soc_v" "soc_v \<le> 100"
  shows "length (page2_line2 soc_v) \<le> 16"
  using length_str_int [of "py_int soc_v"] py_int_range [OF assms]
  by (simp add: page2_line2_def)

lemma length_page3_line2:
  assumes "0 \<le> dod_v" "dod_v \<le> 100" "- 9.95 < imp" "imp < 99.95"
  shows "length (page3_line2 dod_v imp) \<le> 16"
proof -
  have z: "length (fmt_f 1 imp) \<le> 4"
  proof (cases "imp < 0")
    case True
    then show ?thesis using length_fmt_f [of 1 imp 1] assms(3) by simp
  next
    case False
    then show ?thesis using length_fmt_f [of 2 imp 1] assms(4) by simp
  qed
  show ?thesis
    using z length_str_int [of "py_int dod_v"] py_int_range [OF assms(1,2)]
    by (simp add: page3_line2_def)
qed

lemma soc_range: "soc cfg v = Inr s \<Longrightarrow> 0 \<le> s \<and> s \<le> 100"
  by (auto simp: soc_def py_truediv_def split: if_splits)

section \<open>Health classification\<close>

text \<open>
  Claim C1. For every bus voltage the classification is Healthy when the voltage is at
  least the healthy threshold, else Moderate when it is at least the moderate
  threshold, else Critical: the comparisons run from the high threshold to the low
  one. With the shipped thresholds 11.5 and 10.5, a voltage equal to a threshold
  falls into the higher band.
\<close>

theorem get_battery_status_bands:
  "get_battery_status cfg (Finite v) =
     (if v \<ge> VOLTAGE_HEALTHY cfg then ''Healthy''
      else if v \<ge> VOLTAGE_MODERATE cfg then ''Moderate'' else ''Critical'')
   \<and> (11.5 \<le> v \<longrightarrow> get_battery_status reference_config (Finite v) = ''Healthy'')
   \<and> (10.5 \<le> v \<and> v < 11.5 \<longrightarrow> get_battery_status reference_config (Finite v) = ''Moderate'')
   \<and> (v < 10.5 \<longrightarrow> get_battery_status reference_config (Finite v) = ''Critical'')"
  by (simp add: get_battery_status_def reference_config_def)

theorem get_battery_status_bands_witness:
  "get_battery_status reference_config (Finite 11.5) = ''Healthy''
   \<and> get_battery_status reference_config (Finite 12) = ''Healthy''
   \<and> get_battery_status reference_config (Finite 10.5) = ''Moderate''
   \<and> get_battery_status reference_config (Finite 11.49) = ''Moderate''
   \<and> get_battery_status reference_config (Finite 10.49) = ''Critical''"
  using get_battery_status_bands [of reference_config "11.5"]
    get_battery_status_bands [of reference_config 12]
    get_battery_status_bands [of reference_config "10.5"]
    get_battery_status_bands [of reference_config "11.49"]
    get_battery_status_bands [of reference_config "10.49"]
  by (simp add: reference_config_def)

text \<open>
  Claim C9. The classification is total: every float, the infinities and NaN
  included, gets exactly one of the three strings. Both comparisons are false for
  NaN, so a NaN voltage is Critical.
\<close>

theorem get_battery_status_total:
  "get_battery_status cfg x \<in> {''Healthy'', ''Moderate'', ''Critical''}
   \<and> \<not> py_ge NaN (Finite (VOLTAGE_HEALTHY cfg))
   \<and> \<not> py_ge NaN (Finite (VOLTAGE_MODERATE cfg))
   \<and> get_battery_status cfg NaN = ''Critical''
   \<and> get_battery_status cfg PosInf = ''Healthy''
   \<and> get_battery_status cfg NegInf = ''Critical''"
  by (simp add: get_battery_status_def)

theorem get_battery_status_total_witness:
  "get_battery_status reference_config NaN = ''Critical''
   \<and> get_battery_status reference_config (Finite 11) \<in> {''Healthy'', ''Moderate'', ''Critical''}"
  using get_battery_status_total [of reference_config NaN]
    get_battery_status_total [of reference_config "Finite 11"]
  by simp

section \<open>State of charge and depth of discharge\<close>

text \<open>
  Claim C2. With calibration bounds \<open>MIN_VOLTAGE < MAX_VOLTAGE\<close> (the shipped ones
  are 9.0 and 12.6), for every bus voltage, inside the bounds or not, the state of
  charge is the linear interpolation clamped to [0, 100], the depth of discharge is
  100 minus it, and the two sum to 100.
\<close>

theorem soc_dod_sum:
  assumes "MIN_VOLTAGE cfg < MAX_VOLTAGE cfg"
  shows "\<exists>s. soc cfg v = Inr s
           \<and> s = max 0 (min 100 ((v - MIN_VOLTAGE cfg) / (MAX_VOLTAGE cfg - MIN_VOLTAGE cfg) * 100))
           \<and> 0 \<le> s \<and> s \<le> 100
           \<and> (v \<le> MIN_VOLTAGE cfg \<longrightarrow> s = 0) \<and> (MAX_VOLTAGE cfg \<le> v \<longrightarrow> s = 100)
           \<and> dod s = 100 - s \<and> s + dod s = 100"
proof -
  let ?d = "MAX_VOLTAGE cfg - MIN_VOLTAGE cfg"
  let ?q = "(v - MIN_VOLTAGE cfg) / ?d"
  from assms have d: "0 < ?d" by simp
  have lo: "v \<le> MIN_VOLTAGE cfg \<Longrightarrow> ?q * 100 \<le> 0"
    using d by (simp add: divide_le_0_iff)
  have hi: "MAX_VOLTAGE cfg \<le> v \<Longrightarrow> 100 \<le> ?q * 100"
    using d by (simp add: le_divide_eq)
  have "soc cfg v = Inr (max 0 (min 100 (?q * 100)))"
    using d by (simp add: soc_def py_truediv_def)
  then show ?thesis
    using lo hi by (auto simp: dod_def)
qed

theorem soc_dod_sum_witness:
  "MIN_VOLTAGE reference_config < MAX_VOLTAGE reference_config
   \<and> soc reference_config 12 = Inr (250 / 3) \<and> 250 / 3 + dod (250 / 3) = 100
   \<and> soc reference_config 20 = Inr 100 \<and> dod 100 = 0
   \<and> soc reference_config 5 = Inr 0 \<and> dod 0 = 100"
proof -
  have h: "MIN_VOLTAGE reference_config < MAX_VOLTAGE reference_config"
    by (simp add: reference_config_def)
  show ?thesis
    using h soc_dod_sum [OF h, of 12] soc_dod_sum [OF h, of 20] soc_dod_sum [OF h, of 5]
    by (auto simp: reference_config_def dod_def)
qed

section \<open>Impedance\<close>



section \<open>Page rotation\<close>

subsection \<open>The page counter\<close>

lemma page_started: "page started = 0"
  by (simp add: started_def py_print_def initial_state_def)

lemma cycle_page:
  assumes "cycle cfg e s = (Inr y, s')"
  shows "page s' = (page s + 1) mod 4"
  using assms by (rule cycle_effect)

lemma loop_SucE:
  assumes "loop cfg e (Suc n) s = (None, s')"
  obtains s1 where "cycle cfg e s = (Inr (), s1)" and "loop cfg e n s1 = (None, s')"
  using assms by (auto split: prod.splits sum.splits)

lemma loop_page:
  "loop cfg e n s = (None, s') \<Longrightarrow> page s' mod 4 = (page s + int n) mod 4"
proof (induction n arbitrary: s)
  case 0
  then show ?case by simp
next
  case (Suc n)
  from Suc.prems obtain s1 where c: "cycle cfg e s = (Inr (), s1)"
    and l: "loop cfg e n s1 = (None, s')"
    by (rule loop_SucE)
  from Suc.IH [OF l] cycle_page [OF c] show ?case
    by (simp add: mod_simps algebra_simps)
qed

lemma loop_page_range:
  "loop cfg e n s = (None, s') \<Longrightarrow> 0 \<le> page s \<and> page s < 4 \<Longrightarrow> 0 \<le> page s' \<and> page s' < 4"
proof (induction n arbitrary: s)
  case 0
  then show ?case by simp
next
  case (Suc n)
  from Suc.prems(1) obtain s1 where c: "cycle cfg e s = (Inr (), s1)"
    and l: "loop cfg e n s1 = (None, s')"
    by (rule loop_SucE)
  have "0 \<le> page s1 \<and> page s1 < 4" using cycle_page [OF c] by simp
  with Suc.IH [OF l] show ?case by simp
qed

subsection \<open>Runs of the steady environment\<close>

lemma steady0:
  "page s = 0 \<Longrightarrow> cycle reference_config steady_env s =
     (Inr (), s\<lparr>page := 1, bus_voltage_reads := Suc (bus_voltage_reads s),
        current_reads := Suc (Suc (current_reads s)),
        temperature_reads := Suc (temperature_reads s),
        relative_humidity_reads := Suc (relative_humidity_reads s),
        lcd_calls := lcd_calls s + 4, sleeps := Suc (sleeps s),
        lcd_log := lcd_log s @ [Clear, WriteString ''Battery:Healthy'', Crlf,
                                WriteString ''V:12.00 I:500mA'']\<rparr>)"
  by (simp add: run_defs fmt_defs steady_env_def reference_config_def)

lemma steady1:
  "page s = 1 \<Longrightarrow> cycle reference_config steady_env s =
     (Inr (), s\<lparr>page := 2, bus_voltage_reads := Suc (bus_voltage_reads s),
        current_reads := Suc (current_reads s),
        temperature_reads := Suc (temperature_reads s),
        relative_humidity_reads := Suc (relative_humidity_reads s),
        lcd_calls := lcd_calls s + 4, sleeps := Suc (sleeps s),
        lcd_log := lcd_log s @ [Clear, WriteString ''Battery:Healthy'', Crlf,
                                WriteString ''T:25.0 H:40%'']\<rparr>)"
  by (simp add: run_defs fmt_defs steady_env_def reference_config_def)

lemma steady2:
  "page s = 2 \<Longrightarrow> cycle reference_config steady_env s =
     (Inr (), s\<lparr>page := 3, bus_voltage_reads := Suc (bus_voltage_reads s),
        current_reads := Suc (current_reads s),
        temperature_reads := Suc (temperature_reads s),
        relative_humidity_reads := Suc (relative_humidity_reads s),
        lcd_calls := lcd_calls s + 4, sleeps := Suc (sleeps s),
        lcd_log := lcd_log s @ [Clear, WriteString ''SVM:OFF'', Crlf,
                                WriteString ''SOC:83% SOH:OFF'']\<rparr>)"
  by (simp add: run_defs fmt_defs steady_env_def reference_config_def)

lemma steady3:
  "page s = 3 \<Longrightarrow> cycle reference_config steady_env s =
     (Inr (), s\<lparr>page := 0, bus_voltage_reads := Suc (bus_voltage_reads s),
        current_reads := Suc (current_reads s),
        temperature_reads := Suc (temperature_reads s),
        relative_humidity_reads := Suc (relative_humidity_reads s),
        lcd_calls := lcd_calls s + 4, sleeps := Suc (sleeps s),
        lcd_log := lcd_log s @ [Clear, WriteString ''SVM:OFF'', Crlf,
                                WriteString ''DOD:16% Z:24.0R'']\<rparr>)"
  by (simp add: run_defs fmt_defs steady_env_def reference_config_def)

lemma steady_loop4:
  "page s = 0 \<Longrightarrow> fst (loop reference_config steady_env 4 s) = None
     \<and> page (snd (loop reference_config steady_env 4 s)) = 0
     \<and> lcd_log (snd (loop reference_config steady_env 4 s)) = lcd_log s @
         [Clear, WriteString ''Battery:Healthy'', Crlf, WriteString ''V:12.00 I:500mA'',
          Clear, WriteString ''Battery:Healthy'', Crlf, WriteString ''T:25.0 H:40%'',
          Clear, WriteString ''SVM:OFF'', Crlf, WriteString ''SOC:83% SOH:OFF'',
          Clear, WriteString ''SVM:OFF'', Crlf, WriteString ''DOD:16% Z:24.0R'']"
  by (simp add: eval_nat_numeral steady0 steady1 steady2 steady3)

text \<open>
  Claim C6. The page counter starts at 0. An iteration that completes advances it once,
  to \<open>(page + 1) mod 4\<close>. After \<open>n\<close> iterations that completed it is \<open>n mod 4\<close>, an
  integer in [0, 4); four more iterations bring it back to the same page, and the
  iteration that follows shows page \<open>n mod 4\<close>: after the clear it writes two lines,
  the second being the \<open>V: I:\<close> line for page 0, the \<open>T: H:\<close> line for page 1, the
  \<open>SOC:\<close> line for page 2 and the \<open>DOD: Z:\<close> line for page 3.
\<close>

theorem page_rotation:
  "page started = 0
   \<and> (cycle cfg e s0 = (Inr (), s1) \<longrightarrow> page s1 = (page s0 + 1) mod 4)
   \<and> (loop cfg e n started = (None, s) \<longrightarrow>
        page s = int n mod 4 \<and> 0 \<le> page s \<and> page s < 4
        \<and> (\<forall>s'. loop cfg e 4 s = (None, s') \<longrightarrow> page s' = page s)
        \<and> (\<forall>s'. cycle cfg e s = (Inr (), s') \<longrightarrow>
              (\<exists>l1 l2. lcd_log s' = lcd_log s @ [Clear, WriteString l1, Crlf, WriteString l2]
                 \<and> (n mod 4 = 0 \<longrightarrow> (\<exists>v c. l2 = page0_line2 v c))
                 \<and> (n mod 4 = 1 \<longrightarrow> (\<exists>t h. l2 = page1_line2 t h))
                 \<and> (n mod 4 = 2 \<longrightarrow> (\<exists>x. l2 = page2_line2 x))
                 \<and> (n mod 4 = 3 \<longrightarrow> (\<exists>d z. l2 = page3_line2 d z)))))"
proof (intro conjI impI)
  show "page started = 0" by (rule page_started)
next
  assume "cycle cfg e s0 = (Inr (), s1)"
  then show "page s1 = (page s0 + 1) mod 4" by (rule cycle_page)
next
  assume l: "loop cfg e n started = (None, s)"
  have r: "0 \<le> page s \<and> page s < 4"
    using loop_page_range [OF l] by (simp add: page_started)
  have m: "page s mod 4 = int n mod 4"
    using loop_page [OF l] by (simp add: page_started)
  show p: "page s = int n mod 4" using r m by simp
  show "0 \<le> page s" "page s < 4" using r by simp_all
  show "\<forall>s'. loop cfg e 4 s = (None, s') \<longrightarrow> page s' = page s"
  proof (intro allI impI)
    fix s' assume l4: "loop cfg e 4 s = (None, s')"
    have "0 \<le> page s' \<and> page s' < 4" using loop_page_range [OF l4 r] .
    moreover have "page s' mod 4 = page s mod 4" using loop_page [OF l4] by simp
    ultimately show "page s' = page s" using r by simp
  qed
  show "\<forall>s'. cycle cfg e s = (Inr (), s') \<longrightarrow>
      (\<exists>l1 l2. lcd_log s' = lcd_log s @ [Clear, WriteString l1, Crlf, WriteString l2]
         \<and> (n mod 4 = 0 \<longrightarrow> (\<exists>v c. l2 = page0_line2 v c))
         \<and> (n mod 4 = 1 \<longrightarrow> (\<exists>t h. l2 = page1_line2 t h))
         \<and> (n mod 4 = 2 \<longrightarrow> (\<exists>x. l2 = page2_line2 x))
         \<and> (n mod 4 = 3 \<longrightarrow> (\<exists>d z. l2 = page3_line2 d z)))"
  proof (intro allI impI)
    fix s' assume c: "cycle cfg e s = (Inr (), s')"
    have q: "page s = int (n mod 4)" using p by (simp add: zmod_int)
    have "n mod 4 < 4" by simp
    then consider "n mod 4 = 0" | "n mod 4 = 1" | "n mod 4 = 2" | "n mod 4 = 3"
      by linarith
    then show "\<exists>l1 l2. lcd_log s' = lcd_log s @ [Clear, WriteString l1, Crlf, WriteString l2]
         \<and> (n mod 4 = 0 \<longrightarrow> (\<exists>v c. l2 = page0_line2 v c))
         \<and> (n mod 4 = 1 \<longrightarrow> (\<exists>t h. l2 = page1_line2 t h))
         \<and> (n mod 4 = 2 \<longrightarrow> (\<exists>x. l2 = page2_line2 x))
         \<and> (n mod 4 = 3 \<longrightarrow> (\<exists>d z. l2 = page3_line2 d z))"
    proof cases
      case 1
      with q have "page s = 0" by simp
      with c obtain bus_v cur2 where "lcd_log s' = lcd_log s @
            [Clear, WriteString (battery_line (get_battery_status cfg (Finite bus_v))), Crlf,
             WriteString (page0_line2 bus_v cur2)]"
        by (elim cycle_effect) blast
      with 1 show ?thesis by auto
    next
      case 2
      with q have "page s = 1" by simp
      with c obtain bus_v temp hum where "lcd_log s' = lcd_log s @
            [Clear, WriteString (battery_line (get_battery_status cfg (Finite bus_v))), Crlf,
             WriteString (page1_line2 temp hum)]"
        by (elim cycle_effect) blast
      with 2 show ?thesis by auto
    next
      case 3
      with q have "page s = 2" by simp
      with c obtain soc_v where "lcd_log s' = lcd_log s @
            [Clear, WriteString ''SVM:OFF'', Crlf, WriteString (page2_line2 soc_v)]"
        by (elim cycle_effect) blast
      with 3 show ?thesis by auto
    next
      case 4
      with q have "page s = 3" by simp
      with c obtain soc_v imp where "lcd_log s' = lcd_log s @
            [Clear, WriteString ''SVM:OFF'', Crlf, WriteString (page3_line2 (dod soc_v) imp)]"
        by (elim cycle_effect) blast
      with 4 show ?thesis by auto
    qed
  qed
qed

theorem page_rotation_witness:
  "loop reference_config steady_env 4 started =
     (None, snd (loop reference_config steady_env 4 started))
   \<and> page (snd (loop reference_config steady_env 4 started)) = 0
   \<and> lcd_log (snd (loop reference_config steady_env 4 started)) =
         [Clear, WriteString ''Battery:Healthy'', Crlf, WriteString ''V:12.00 I:500mA'',
          Clear, WriteString ''Battery:Healthy'', Crlf, WriteString ''T:25.0 H:40%'',
          Clear, WriteString ''SVM:OFF'', Crlf, WriteString ''SOC:83% SOH:OFF'',
          Clear, WriteString ''SVM:OFF'', Crlf, WriteString ''DOD:16% Z:24.0R'']
   \<and> cycle reference_config steady_env (snd (loop reference_config steady_env 4 started)) =
       (Inr (), snd (cycle reference_config steady_env
                      (snd (loop reference_config steady_env 4 started))))
   \<and> last (lcd_log (snd (cycle reference_config steady_env
                      (snd (loop reference_config steady_env 4 started))))) =
       WriteString ''V:12.00 I:500mA''"
proof -
  let ?s = "snd (loop reference_config steady_env 4 started)"
  have l: "loop reference_config steady_env 4 started = (None, ?s)"
    using steady_loop4 [OF page_started] by (simp add: prod_eq_iff)
  have p: "page ?s = 0" using steady_loop4 [OF page_started] by simp
  have g: "lcd_log started = []" by (simp add: started_def py_print_def initial_state_def)
  show ?thesis
    using l p page_rotation [of reference_config steady_env started
        "snd (cycle reference_config steady_env started)" 4 ?s]
      steady_loop4 [OF page_started] steady0 [OF p]
    by (simp add: g)
qed

section \<open>Sensor reads of one iteration\<close>

text \<open>
  What an iteration that completes reads: the bus voltage, the temperature and the
  humidity once each (lines 38, 43 and 44), the current once for the impedance
  (line 39) and, on page 0, a second time inside the format string of line 52. The
  milliamp value shown on page 0 is the one of that second read; the impedance shown on
  page 3 comes from the read of line 39.
\<close>

lemma cycle_sensor_reads:
  assumes "cycle cfg e s = (Inr (), s')"
  shows "bus_voltage_reads s' = bus_voltage_reads s + 1
       \<and> temperature_reads s' = temperature_reads s + 1
       \<and> relative_humidity_reads s' = relative_humidity_reads s + 1
       \<and> current_reads s' = (if page s = 0 then current_reads s + 2 else current_reads s + 1)
       \<and> (page s = 0 \<longrightarrow>
            (\<exists>bus_v cur2. bus_voltage_at e (bus_voltage_reads s) = Inr bus_v
               \<and> current_at e (Suc (current_reads s)) = Inr cur2
               \<and> last (lcd_log s') = WriteString (page0_line2 bus_v cur2)))
       \<and> (page s = 3 \<longrightarrow>
            (\<exists>bus_v cur soc_v imp. bus_voltage_at e (bus_voltage_reads s) = Inr bus_v
               \<and> current_at e (current_reads s) = Inr cur
               \<and> impedance bus_v (cur / 1000) = Inr imp
               \<and> soc cfg bus_v = Inr soc_v
               \<and> last (lcd_log s') = WriteString (page3_line2 (dod soc_v) imp)))"
  using assms by (elim cycle_effect) auto

text \<open>
  Claim C8. Every displayed quantity of an iteration is the single sample taken under
  \<open># Read sensor data\<close>: the bus voltage, the temperature and the humidity are
  captured once in a variable and shown from it. The current on page 0 breaks this:
  line 52 accesses \<open>ina219.current\<close> again instead of using the sample of line 39.
  With a sensor that returns 500 mA at the first access and 700 mA at the second, the
  first iteration reads the current twice and shows \<open>I:700mA\<close>, while the sample the
  impedance of that iteration was computed from would have been shown as
  \<open>I:500mA\<close>.
\<close>

theorem single_sample_counterexample:
  "fst (cycle reference_config drifting_env started) = Inr ()
   \<and> current_at drifting_env (current_reads started) = Inr 500
   \<and> current_reads (snd (cycle reference_config drifting_env started)) = 2
   \<and> lcd_log (snd (cycle reference_config drifting_env started)) =
       [Clear, WriteString ''Battery:Healthy'', Crlf, WriteString ''V:12.00 I:700mA'']
   \<and> page0_line2 12 500 = ''V:12.00 I:500mA''"
  by (simp add: run_defs fmt_defs start_defs drifting_env_def)

section \<open>Width of the displayed lines\<close>

text \<open>
  Claim C7, as amended. For every page in 0..3 an iteration that completes clears the
  display and writes exactly two lines, following the page mapping. The first line
  never exceeds the 16 columns, nor does the second line of page 2. The second lines
  of pages 0, 1 and 3 are not truncated: they fit when the formatted numbers are short
  enough, page 0 for a bus voltage in [0, 99.995) and a current in (-999.5, 9999.5),
  page 1 for a temperature in (-9999.95, 99999.95) and a humidity in (-99.5, 999.5),
  page 3 for an impedance in (-9.95, 99.95).
\<close>

theorem two_lines_and_their_width:
  "(cycle cfg e s = (Inr (), s') \<and> page s \<in> {0, 1, 2, 3} \<longrightarrow>
      (\<exists>l1 l2 bus_v cur cur2 imp soc_v temp hum.
          lcd_log s' = lcd_log s @ [Clear, WriteString l1, Crlf, WriteString l2]
        \<and> length l1 \<le> LCD_COLS
        \<and> bus_voltage_at e (bus_voltage_reads s) = Inr bus_v
        \<and> current_at e (current_reads s) = Inr cur
        \<and> impedance bus_v (cur / 1000) = Inr imp
        \<and> soc cfg bus_v = Inr soc_v
        \<and> temperature_at e (temperature_reads s) = Inr temp
        \<and> relative_humidity_at e (relative_humidity_reads s) = Inr hum
        \<and> (page s = 0 \<longrightarrow> current_at e (Suc (current_reads s)) = Inr cur2
              \<and> l1 = battery_line (get_battery_status cfg (Finite bus_v))
              \<and> l2 = page0_line2 bus_v cur2)
        \<and> (page s = 1 \<longrightarrow> l1 = battery_line (get_battery_status cfg (Finite bus_v))
              \<and> l2 = page1_line2 temp hum)
        \<and> (page s = 2 \<longrightarrow> l1 = ''SVM:OFF'' \<and> l2 = page2_line2 soc_v
              \<and> length l2 \<le> LCD_COLS)
        \<and> (page s = 3 \<longrightarrow> l1 = ''SVM:OFF'' \<and> l2 = page3_line2 (dod soc_v) imp)))
   \<and> length (battery_line (get_battery_status cfg x)) \<le> LCD_COLS
   \<and> (0 \<le> v \<and> v < 99.995 \<and> - 999.5 < c \<and> c < 9999.5 \<longrightarrow>
        length (page0_line2 v c) \<le> LCD_COLS)
   \<and> (- 9999.95 < t \<and> t < 99999.95 \<and> - 99.5 < h \<and> h < 999.5 \<longrightarrow>
        length (page1_line2 t h) \<le> LCD_COLS)
   \<and> (soc cfg v = Inr sv \<longrightarrow> length (page2_line2 sv) \<le> LCD_COLS)
   \<and> (soc cfg v = Inr sv \<and> - 9.95 < z \<and> z < 99.95 \<longrightarrow>
        length (page3_line2 (dod sv) z) \<le> LCD_COLS)"
proof (intro conjI impI)
  assume a: "cycle cfg e s = (Inr (), s') \<and> page s \<in> {0, 1, 2, 3}"
  then have c: "cycle cfg e s = (Inr (), s')" by simp
  from c show "\<exists>l1 l2 bus_v cur cur2 imp soc_v temp hum.
          lcd_log s' = lcd_log s @ [Clear, WriteString l1, Crlf, WriteString l2]
        \<and> length l1 \<le> LCD_COLS
        \<and> bus_voltage_at e (bus_voltage_reads s) = Inr bus_v
        \<and> current_at e (current_reads s) = Inr cur
        \<and> impedance bus_v (cur / 1000) = Inr imp
        \<and> soc cfg bus_v = Inr soc_v
        \<and> temperature_at e (temperature_reads s) = Inr temp
        \<and> relative_humidity_at e (relative_humidity_reads s) = Inr hum
        \<and> (page s = 0 \<longrightarrow> current_at e (Suc (current_reads s)) = Inr cur2
              \<and> l1 = battery_line (get_battery_status cfg (Finite bus_v))
              \<and> l2 = page0_line2 bus_v cur2)
        \<and> (page s = 1 \<longrightarrow> l1 = battery_line (get_battery_status cfg (Finite bus_v))
              \<and> l2 = page1_line2 temp hum)
        \<and> (page s = 2 \<longrightarrow> l1 = ''SVM:OFF'' \<and> l2 = page2_line2 soc_v
              \<and> length l2 \<le> LCD_COLS)
        \<and> (page s = 3 \<longrightarrow> l1 = ''SVM:OFF'' \<and> l2 = page3_line2 (dod soc_v) imp)"
  proof (rule cycle_effect)
    fix bus_v cur imp soc_v temp hum
    assume r: "bus_voltage_at e (bus_voltage_reads s) = Inr bus_v"
       "current_at e (current_reads s) = Inr cur"
       "impedance bus_v (cur / 1000) = Inr imp"
       "soc cfg bus_v = Inr soc_v"
       "temperature_at e (temperature_reads s) = Inr temp"
       "relative_humidity_at e (relative_humidity_reads s) = Inr hum"
    and p0: "page s = 0 \<Longrightarrow> \<exists>cur2. current_at e (Suc (current_reads s)) = Inr cur2
       \<and> lcd_log s' = lcd_log s @
            [Clear, WriteString (battery_line (get_battery_status cfg (Finite bus_v))), Crlf,
             WriteString (page0_line2 bus_v cur2)]"
    and p1: "page s = 1 \<Longrightarrow> lcd_log s' = lcd_log s @
            [Clear, WriteString (battery_line (get_battery_status cfg (Finite bus_v))), Crlf,
             WriteString (page1_line2 temp hum)]"
    and p2: "page s = 2 \<Longrightarrow> lcd_log s' = lcd_log s @
            [Clear, WriteString ''SVM:OFF'', Crlf, WriteString (page2_line2 soc_v)]"
    and p3: "page s = 3 \<Longrightarrow> lcd_log s' = lcd_log s @
            [Clear, WriteString ''SVM:OFF'', Crlf, WriteString (page3_line2 (dod soc_v) imp)]"
    have b: "length (battery_line (get_battery_status cfg (Finite bus_v))) \<le> LCD_COLS"
      using length_battery_line [of cfg "Finite bus_v"] by (simp add: LCD_COLS_def)
    have w2: "length (page2_line2 soc_v) \<le> LCD_COLS"
      using length_page2_line2 [of soc_v] soc_range [OF r(4)] by (simp add: LCD_COLS_def)
    have w: "length ''SVM:OFF'' \<le> LCD_COLS" by (simp add: LCD_COLS_def)
    from a consider "page s = 0" | "page s = 1" | "page s = 2" | "page s = 3" by auto
    then show ?thesis
    proof cases
      case 1
      with p0 obtain cur2 where "current_at e (Suc (current_reads s)) = Inr cur2"
        and "lcd_log s' = lcd_log s @
              [Clear, WriteString (battery_line (get_battery_status cfg (Finite bus_v))), Crlf,
               WriteString (page0_line2 bus_v cur2)]"
        by blast
      with 1 r b show ?thesis by force
    next
      case 2
      with p1 r b show ?thesis by force
    next
      case 3
      with p2 r w w2 show ?thesis by force
    next
      case 4
      with p3 r w show ?thesis by force
    qed
  qed
next
  show "length (battery_line (get_battery_status cfg x)) \<le> LCD_COLS"
    using length_battery_line [of cfg x] by (simp add: LCD_COLS_def)
next
  assume "0 \<le> v \<and> v < 99.995 \<and> - 999.5 < c \<and> c < 9999.5"
  then show "length (page0_line2 v c) \<le> LCD_COLS"
    using length_page0_line2 [of v c] by (simp add: LCD_COLS_def)
next
  assume "- 9999.95 < t \<and> t < 99999.95 \<and> - 99.5 < h \<and> h < 999.5"
  then show "length (page1_line2 t h) \<le> LCD_COLS"
    using length_page1_line2 [of t h] by (simp add: LCD_COLS_def)
next
  assume "soc cfg v = Inr sv"
  then show "length (page2_line2 sv) \<le> LCD_COLS"
    using length_page2_line2 [of sv] soc_range [of cfg v sv] by (simp add: LCD_COLS_def)
next
  assume a: "soc cfg v = Inr sv \<and> - 9.95 < z \<and> z < 99.95"
  then have "0 \<le> dod sv \<and> dod sv \<le> 100"
    using soc_range [of cfg v sv] by (simp add: dod_def)
  with a show "length (page3_line2 (dod sv) z) \<le> LCD_COLS"
    using length_page3_line2 [of "dod sv" z] by (simp add: LCD_COLS_def)
qed

theorem two_lines_and_their_width_witness:
  "cycle reference_config steady_env started =
      (Inr (), snd (cycle reference_config steady_env started))
   \<and> page started \<in> {0, 1, 2, 3}
   \<and> lcd_log (snd (cycle reference_config steady_env started)) =
        [Clear, WriteString ''Battery:Healthy'', Crlf, WriteString ''V:12.00 I:500mA'']
   \<and> (0 :: real) \<le> 12 \<and> (12 :: real) < 99.995 \<and> - 999.5 < (500 :: real) \<and> (500 :: real) < 9999.5
   \<and> length (page0_line2 12 500) \<le> LCD_COLS
   \<and> - 9999.95 < (25 :: real) \<and> (25 :: real) < 99999.95 \<and> - 99.5 < (40 :: real)
   \<and> (40 :: real) < 999.5
   \<and> length (page1_line2 25 40) \<le> LCD_COLS
   \<and> soc reference_config 12 = Inr (250 / 3)
   \<and> length (page2_line2 (250 / 3)) \<le> LCD_COLS
   \<and> - 9.95 < (24 :: real) \<and> (24 :: real) < 99.95
   \<and> length (page3_line2 (dod (250 / 3)) 24) \<le> LCD_COLS"
proof -
  have c: "cycle reference_config steady_env started =
      (Inr (), snd (cycle reference_config steady_env started))"
    using steady0 [OF page_started] by simp
  have l: "lcd_log (snd (cycle reference_config steady_env started)) =
        [Clear, WriteString ''Battery:Healthy'', Crlf, WriteString ''V:12.00 I:500mA'']"
    using steady0 [OF page_started] by (simp add: start_defs py_print_def)
  have q: "soc reference_config 12 = Inr (250 / 3)"
    by (simp add: soc_def py_truediv_def reference_config_def)
  show ?thesis
    using c l q page_started
      two_lines_and_their_width [of reference_config steady_env started
        "snd (cycle reference_config steady_env started)" "Finite 12" 12 500 25 40 "250 / 3" 24]
    by simp
qed

text \<open>
  Claim C7 as stated fails: while the battery is charged with 1.5 A, the second line of
  page 0 takes 17 characters; with 12 V and 10 mA the impedance is 1200 ohms and the
  second line of page 3 takes 17 characters.
\<close>

theorem line_width_counterexample:
  "lcd_log (snd (cycle reference_config charging_env started)) =
       [Clear, WriteString ''Battery:Healthy'', Crlf, WriteString ''V:12.00 I:-1500mA'']
   \<and> \<not> length ''V:12.00 I:-1500mA'' \<le> LCD_COLS
   \<and> impedance 12 (10 / 1000) = Inr 1200
   \<and> soc reference_config 12 = Inr (250 / 3)
   \<and> page3_line2 (dod (250 / 3)) 1200 = ''DOD:16% Z:1200.0R''
   \<and> \<not> length ''DOD:16% Z:1200.0R'' \<le> LCD_COLS"
  by (simp add: run_defs fmt_defs start_defs charging_env_def LCD_COLS_def)

section \<open>Calibration bounds at startup\<close>

lemma first_cycle_runs:
  assumes "MAX_VOLTAGE cfg \<noteq> MIN_VOLTAGE cfg"
    and "bus_voltage_at e 0 = Inr v" "current_at e 0 = Inr c" "current_at e (Suc 0) = Inr c2"
    and "temperature_at e 0 = Inr t" "relative_humidity_at e 0 = Inr h"
    and "lcd_at e 0 = None" "lcd_at e (Suc 0) = None" "lcd_at e (Suc (Suc 0)) = None"
      "lcd_at e (Suc (Suc (Suc 0))) = None"
    and "sleep_at e 0 = None"
  shows "cycle cfg e started =
     (Inr (), started\<lparr>page := 1, bus_voltage_reads := 1, current_reads := 2,
        temperature_reads := 1, relative_humidity_reads := 1, lcd_calls := 4, sleeps := 1,
        lcd_log := [Clear, WriteString (battery_line (get_battery_status cfg (Finite v))), Crlf,
                    WriteString (page0_line2 v c2)]\<rparr>)"
  using assms
  by (simp add: cycle_def show_page_def io_bind_def io_lift_def ina219_bus_voltage_def
      ina219_current_def aht25_temperature_def aht25_relative_humidity_def lcd_call_def
      lcd_clear_def lcd_write_string_def lcd_crlf_def time_sleep_def py_print_def set_page_def
      impedance_def soc_def py_truediv_def started_def initial_state_def numeral_2_eq_2
      eval_nat_numeral)

lemma first_cycle_divides_by_zero:
  assumes "MAX_VOLTAGE cfg = MIN_VOLTAGE cfg"
    and "bus_voltage_at e 0 = Inr v" "current_at e 0 = Inr c"
  shows "cycle cfg e started =
     (Inl (Error ''float division by zero''),
      started\<lparr>bus_voltage_reads := 1, current_reads := 1\<rparr>)"
  using assms
  by (simp add: cycle_def io_bind_def io_lift_def ina219_bus_voltage_def
      ina219_current_def impedance_def soc_def py_truediv_def started_def initial_state_def
      py_print_def)

lemma loop_fails_first:
  "cycle cfg e s = (Inl x, s1) \<Longrightarrow> 0 < n \<Longrightarrow> loop cfg e n s = (Some x, s1)"
  by (cases n) simp_all

text \<open>
  Claim C4, as amended. The script does not validate the calibration constants and has
  no ConfigurationError: whatever the constants, the loop is entered. With bounds that
  differ (\<open>MAX_VOLTAGE < MIN_VOLTAGE\<close> included) the state of charge never raises, it
  is a value clamped to [0, 100], and the first iteration completes when its
  collaborators do. With equal bounds the first iteration reads the bus voltage and the
  current, the division raises ZeroDivisionError inside the loop, and the handler for
  \<open>Exception\<close> writes "Error Occurred", prints the detail and lets the script end.
\<close>

theorem no_startup_validation:
  assumes "bus_voltage_at e 0 = Inr v" "current_at e 0 = Inr c" "current_at e 1 = Inr c2"
    and "temperature_at e 0 = Inr t" "relative_humidity_at e 0 = Inr h"
    and "\<forall>k<4. lcd_at e k = None" and "sleep_at e 0 = None"
  shows "(MAX_VOLTAGE cfg \<noteq> MIN_VOLTAGE cfg \<longrightarrow>
            (\<exists>sv. soc cfg v = Inr sv \<and> 0 \<le> sv \<and> sv \<le> 100)
          \<and> main cfg e 1 =
              (Running, started\<lparr>page := 1, bus_voltage_reads := 1, current_reads := 2,
                 temperature_reads := 1, relative_humidity_reads := 1, lcd_calls := 4,
                 sleeps := 1,
                 lcd_log := [Clear, WriteString (battery_line (get_battery_status cfg (Finite v))),
                             Crlf, WriteString (page0_line2 v c2)]\<rparr>))
       \<and> (MAX_VOLTAGE cfg = MIN_VOLTAGE cfg \<longrightarrow>
            soc cfg v = Inl (Error ''float division by zero'')
          \<and> (\<forall>n>0. main cfg e n =
              (Finished, started\<lparr>bus_voltage_reads := 1, current_reads := 1, lcd_calls := 2,
                 lcd_log := [Clear, WriteString ''Error Occurred''],
                 stdout := stdout started @ [''Error: float division by zero'']\<rparr>)))"
proof (intro conjI impI allI)
  assume d: "MAX_VOLTAGE cfg \<noteq> MIN_VOLTAGE cfg"
  then show "\<exists>sv. soc cfg v = Inr sv \<and> 0 \<le> sv \<and> sv \<le> 100"
    by (simp add: soc_def py_truediv_def)
  have l: "lcd_at e 0 = None" "lcd_at e (Suc 0) = None" "lcd_at e (Suc (Suc 0)) = None"
      "lcd_at e (Suc (Suc (Suc 0))) = None"
    using assms(6) by simp_all
  have c1: "current_at e (Suc 0) = Inr c2" using assms(3) by simp
  note first_cycle_runs [OF d assms(1,2) c1 assms(4,5) l assms(7)]
  then show "main cfg e 1 =
              (Running, started\<lparr>page := 1, bus_voltage_reads := 1, current_reads := 2,
                 temperature_reads := 1, relative_humidity_reads := 1, lcd_calls := 4,
                 sleeps := 1,
                 lcd_log := [Clear, WriteString (battery_line (get_battery_status cfg (Finite v))),
                             Crlf, WriteString (page0_line2 v c2)]\<rparr>)"
    by (simp add: main_def)
next
  assume z: "MAX_VOLTAGE cfg = MIN_VOLTAGE cfg"
  then show "soc cfg v = Inl (Error ''float division by zero'')"
    by (simp add: soc_def py_truediv_def)
  fix n :: nat
  assume n: "0 < n"
  have l: "lcd_at e 0 = None" "lcd_at e (Suc 0) = None"
    using assms(6) by simp_all
  have "loop cfg e n started =
      (Some (Error ''float division by zero''),
       started\<lparr>bus_voltage_reads := 1, current_reads := 1\<rparr>)"
    using first_cycle_divides_by_zero [OF z assms(1,2)] n by (rule loop_fails_first)
  then show "main cfg e n =
              (Finished, started\<lparr>bus_voltage_reads := 1, current_reads := 1, lcd_calls := 2,
                 lcd_log := [Clear, WriteString ''Error Occurred''],
                 stdout := stdout started @ [''Error: float division by zero'']\<rparr>)"
    using l
    by (simp add: main_def finish_def on_exception_def io_bind_def lcd_clear_def
        lcd_write_string_def lcd_call_def py_print_def started_def initial_state_def)
qed

theorem no_startup_validation_witness:
  "MAX_VOLTAGE inverted_config < MIN_VOLTAGE inverted_config
   \<and> soc inverted_config 12 = Inr (50 / 3)
   \<and> fst (main inverted_config steady_env 1) = Running
   \<and> lcd_log (snd (main inverted_config steady_env 1)) =
       [Clear, WriteString ''Battery:Healthy'', Crlf, WriteString ''V:12.00 I:500mA'']
   \<and> MAX_VOLTAGE flat_config = MIN_VOLTAGE flat_config
   \<and> fst (main flat_config steady_env 1) = Finished
   \<and> lcd_log (snd (main flat_config steady_env 1)) = [Clear, WriteString ''Error Occurred'']
   \<and> stdout (snd (main flat_config steady_env 1)) =
       [''Battery monitoring system started...'', ''Error: float division by zero'']"
proof -
  have e: "bus_voltage_at steady_env 0 = Inr 12" "current_at steady_env 0 = Inr 500"
    "current_at steady_env 1 = Inr 500" "temperature_at steady_env 0 = Inr 25"
    "relative_humidity_at steady_env 0 = Inr 40" "\<forall>k<4. lcd_at steady_env k = None"
    "sleep_at steady_env 0 = None"
    by (simp_all add: steady_env_def)
  have i: "MAX_VOLTAGE inverted_config \<noteq> MIN_VOLTAGE inverted_config"
    and f: "MAX_VOLTAGE flat_config = MIN_VOLTAGE flat_config"
    by (simp_all add: inverted_config_def flat_config_def reference_config_def)
  have q: "soc inverted_config 12 = Inr (50 / 3)"
    by (simp add: soc_def py_truediv_def inverted_config_def reference_config_def)
  have b: "battery_line (get_battery_status inverted_config (Finite 12)) = ''Battery:Healthy''"
    "page0_line2 12 500 = ''V:12.00 I:500mA''"
    by (simp_all add: fmt_defs get_battery_status_def inverted_config_def reference_config_def)
  have s: "stdout started = [''Battery monitoring system started...'']"
    by (simp add: started_def py_print_def initial_state_def)
  show ?thesis
    using no_startup_validation [OF e, of inverted_config] i
      no_startup_validation [OF e, of flat_config] f q b s
    by (simp add: inverted_config_def flat_config_def reference_config_def)
qed

text \<open>
  Claim C4 as stated fails: with the bounds the wrong way round (9.0 as maximum, 12.6
  as minimum) nothing is raised, the first iteration completes and shows its readings,
  and at 12 V the state of charge is the clamped value 16.66...
\<close>

theorem startup_check_counterexample:
  "MAX_VOLTAGE inverted_config \<le> MIN_VOLTAGE inverted_config
   \<and> main inverted_config steady_env 1 =
       (Running, started\<lparr>page := 1, bus_voltage_reads := 1, current_reads := 2,
          temperature_reads := 1, relative_humidity_reads := 1, lcd_calls := 4, sleeps := 1,
          lcd_log := [Clear, WriteString ''Battery:Healthy'', Crlf,
                      WriteString ''V:12.00 I:500mA'']\<rparr>)
   \<and> soc inverted_config 12 = Inr (50 / 3)"
  by (simp add: main_def run_defs fmt_defs start_defs inverted_config_def)

section \<open>The failure path\<close>

lemma loop_fails_after:
  "loop cfg e k s0 = (None, s) \<Longrightarrow> cycle cfg e s = (Inl x, s1) \<Longrightarrow> k < n
     \<Longrightarrow> loop cfg e n s0 = (Some x, s1)"
proof (induction k arbitrary: s0 n)
  case 0
  then show ?case by (simp add: loop_fails_first)
next
  case (Suc k)
  from Suc.prems(1) obtain s' where c: "cycle cfg e s0 = (Inr (), s')"
    and l: "loop cfg e k s' = (None, s)"
    by (rule loop_SucE)
  from Suc.prems(3) obtain m where n: "n = Suc m" and m: "k < m" by (cases n) auto
  from Suc.IH [OF l Suc.prems(2) m] c n show ?case by simp
qed

text \<open>No step of an iteration writes the text of the error handler.\<close>

lemma cycle_error_text:
  "cycle cfg e s = (r, s') \<Longrightarrow>
     count_list (lcd_log s') (WriteString ''Error Occurred'') =
     count_list (lcd_log s) (WriteString ''Error Occurred'')"
  by (auto simp: cycle_def show_page_def io_bind_def io_lift_def ina219_bus_voltage_def
      ina219_current_def aht25_temperature_def aht25_relative_humidity_def lcd_call_def
      lcd_clear_def lcd_write_string_def lcd_crlf_def time_sleep_def set_page_def
      battery_line_def page0_line2_def page1_line2_def page2_line2_def page3_line2_def
      split: sum.splits prod.splits option.splits if_splits)

lemma loop_error_text:
  "loop cfg e k s0 = (None, s) \<Longrightarrow>
     count_list (lcd_log s) (WriteString ''Error Occurred'') =
     count_list (lcd_log s0) (WriteString ''Error Occurred'')"
proof (induction k arbitrary: s0)
  case 0
  then show ?case by simp
next
  case (Suc k)
  from Suc.prems obtain s' where c: "cycle cfg e s0 = (Inr (), s')"
    and l: "loop cfg e k s' = (None, s)"
    by (rule loop_SucE)
  from Suc.IH [OF l] cycle_error_text [OF c] show ?case by simp
qed

lemma started_error_text: "count_list (lcd_log started) (WriteString ''Error Occurred'') = 0"
  by (simp add: started_def py_print_def initial_state_def)

lemma sensor_fault_first:
  "cycle reference_config sensor_fault_env started =
     (Inr (), started\<lparr>page := 1, bus_voltage_reads := 1, current_reads := 2,
        temperature_reads := 1, relative_humidity_reads := 1, lcd_calls := 4, sleeps := 1,
        lcd_log := [Clear, WriteString ''Battery:Healthy'', Crlf,
                    WriteString ''V:12.00 I:500mA'']\<rparr>)"
  by (simp add: run_defs fmt_defs start_defs sensor_fault_env_def)

lemma sensor_fault_second:
  "cycle reference_config sensor_fault_env
     (started\<lparr>page := 1, bus_voltage_reads := 1, current_reads := 2,
        temperature_reads := 1, relative_humidity_reads := 1, lcd_calls := 4, sleeps := 1,
        lcd_log := [Clear, WriteString ''Battery:Healthy'', Crlf,
                    WriteString ''V:12.00 I:500mA'']\<rparr>) =
     (Inl (Error ''[Errno 121] Remote I/O error''),
      started\<lparr>page := 1, bus_voltage_reads := 2, current_reads := 3,
        temperature_reads := 2, relative_humidity_reads := 1, lcd_calls := 4, sleeps := 1,
        lcd_log := [Clear, WriteString ''Battery:Healthy'', Crlf,
                    WriteString ''V:12.00 I:500mA'']\<rparr>)"
  by (simp add: run_defs fmt_defs start_defs sensor_fault_env_def)

lemma sensor_fault_loop:
  "loop reference_config sensor_fault_env 1 started =
     (None, started\<lparr>page := 1, bus_voltage_reads := 1, current_reads := 2,
        temperature_reads := 1, relative_humidity_reads := 1, lcd_calls := 4, sleeps := 1,
        lcd_log := [Clear, WriteString ''Battery:Healthy'', Crlf,
                    WriteString ''V:12.00 I:500mA'']\<rparr>)"
  by (simp add: sensor_fault_first)

lemma sensor_fault_main:
  "main reference_config sensor_fault_env 5 =
     (Finished,
      started\<lparr>page := 1, bus_voltage_reads := 2, current_reads := 3,
        temperature_reads := 2, relative_humidity_reads := 1, lcd_calls := 6, sleeps := 1,
        lcd_log := [Clear, WriteString ''Battery:Healthy'', Crlf,
                    WriteString ''V:12.00 I:500mA'', Clear, WriteString ''Error Occurred''],
        stdout := [''Battery monitoring system started...'',
                   ''Error: [Errno 121] Remote I/O error'']\<rparr>)"
proof -
  have "loop reference_config sensor_fault_env 5 started =
     (Some (Error ''[Errno 121] Remote I/O error''),
      started\<lparr>page := 1, bus_voltage_reads := 2, current_reads := 3,
        temperature_reads := 2, relative_humidity_reads := 1, lcd_calls := 4, sleeps := 1,
        lcd_log := [Clear, WriteString ''Battery:Healthy'', Crlf,
                    WriteString ''V:12.00 I:500mA'']\<rparr>)"
    by (rule loop_fails_after [OF sensor_fault_loop sensor_fault_second]) simp
  then show ?thesis
    by (simp add: main_def finish_def on_exception_def io_bind_def lcd_clear_def
        lcd_write_string_def lcd_call_def py_print_def start_defs sensor_fault_env_def)
qed

lemma dead_display_first:
  "cycle reference_config dead_display_env started =
     (Inl (Error ''[Errno 5] Input/output error''),
      started\<lparr>bus_voltage_reads := 1, current_reads := 1, temperature_reads := 1,
        relative_humidity_reads := 1, lcd_calls := 1\<rparr>)"
  by (simp add: run_defs fmt_defs start_defs dead_display_env_def)

lemma flaky_display_first:
  "cycle reference_config flaky_display_env started =
     (Inl (Error ''[Errno 5] Input/output error''),
      started\<lparr>bus_voltage_reads := 1, current_reads := 1, temperature_reads := 1,
        relative_humidity_reads := 1, lcd_calls := 2, lcd_log := [Clear]\<rparr>)"
  by (simp add: run_defs fmt_defs start_defs flaky_display_env_def)

text \<open>
  Claim C5, as amended. When an iteration raises an exception derived from
  \<open>Exception\<close> (a sensor read failure, say) after \<open>k\<close> iterations that completed,
  the loop ends there: nothing is retried and no further iteration runs, however long
  the process is observed. The handler clears the display, writes "Error Occurred",
  the only such write of the run, and prints "Error: " and the detail on standard
  output. The script then reaches its end: the process ends normally, with exit status
  0 and not a failure status. Only when a display call of the handler raises does the
  exception leave the script uncaught, which ends the process with a failure status
  and without the printed detail.
\<close>

theorem failure_path:
  assumes "loop cfg e k started = (None, s)"
    and "cycle cfg e s = (Inl (Error msg), s1)"
    and "k < n"
  shows "(lcd_at e (lcd_calls s1) = None \<and> lcd_at e (Suc (lcd_calls s1)) = None \<longrightarrow>
            main cfg e n =
              (Finished, s1\<lparr>lcd_calls := lcd_calls s1 + 2,
                 lcd_log := lcd_log s1 @ [Clear, WriteString ''Error Occurred''],
                 stdout := stdout s1 @ [''Error: '' @ msg]\<rparr>)
          \<and> \<not> failure_status (fst (main cfg e n))
          \<and> count_list (lcd_log (snd (main cfg e n))) (WriteString ''Error Occurred'') = 1
          \<and> bus_voltage_reads (snd (main cfg e n)) = bus_voltage_reads s1
          \<and> sleeps (snd (main cfg e n)) = sleeps s1)
       \<and> (lcd_at e (lcd_calls s1) = Some x \<longrightarrow>
            main cfg e n = (Uncaught x, s1\<lparr>lcd_calls := lcd_calls s1 + 1\<rparr>)
          \<and> failure_status (fst (main cfg e n)))
       \<and> (lcd_at e (lcd_calls s1) = None \<and> lcd_at e (Suc (lcd_calls s1)) = Some x \<longrightarrow>
            main cfg e n =
              (Uncaught x, s1\<lparr>lcd_calls := lcd_calls s1 + 2, lcd_log := lcd_log s1 @ [Clear]\<rparr>)
          \<and> failure_status (fst (main cfg e n)))"
proof -
  have l: "loop cfg e n started = (Some (Error msg), s1)"
    using assms by (rule loop_fails_after)
  have c: "count_list (lcd_log s1) (WriteString ''Error Occurred'') = 0"
    using cycle_error_text [OF assms(2)] loop_error_text [OF assms(1)] started_error_text
    by simp
  have m: "main cfg e n = finish (on_exception e msg s1)"
    using l by (simp add: main_def)
  show ?thesis
    unfolding m using c
    by (simp add: finish_def on_exception_def io_bind_def lcd_clear_def lcd_write_string_def
        lcd_call_def py_print_def failure_status_def)
qed

theorem failure_path_witness:
  "loop reference_config sensor_fault_env 1 started =
     (None, started\<lparr>page := 1, bus_voltage_reads := 1, current_reads := 2,
        temperature_reads := 1, relative_humidity_reads := 1, lcd_calls := 4, sleeps := 1,
        lcd_log := [Clear, WriteString ''Battery:Healthy'', Crlf,
                    WriteString ''V:12.00 I:500mA'']\<rparr>)
   \<and> (1 :: nat) < 5
   \<and> lcd_at sensor_fault_env 4 = None \<and> lcd_at sensor_fault_env 5 = None
   \<and> fst (main reference_config sensor_fault_env 5) = Finished
   \<and> \<not> failure_status (fst (main reference_config sensor_fault_env 5))
   \<and> count_list (lcd_log (snd (main reference_config sensor_fault_env 5)))
        (WriteString ''Error Occurred'') = 1
   \<and> sleeps (snd (main reference_config sensor_fault_env 5)) = 1
   \<and> lcd_at dead_display_env 1 = Some (Error ''[Errno 5] Input/output error'')
   \<and> fst (main reference_config dead_display_env 5) =
       Uncaught (Error ''[Errno 5] Input/output error'')
   \<and> lcd_at flaky_display_env 2 = None
   \<and> lcd_at flaky_display_env 3 = Some (Error ''[Errno 5] Input/output error'')
   \<and> fst (main reference_config flaky_display_env 5) =
       Uncaught (Error ''[Errno 5] Input/output error'')
   \<and> lcd_log (snd (main reference_config flaky_display_env 5)) = [Clear, Clear]"
proof -
  have n: "(1 :: nat) < 5" "(0 :: nat) < 5" by simp_all
  have d: "lcd_at sensor_fault_env 4 = None" "lcd_at sensor_fault_env 5 = None"
    by (simp_all add: sensor_fault_env_def steady_env_def)
  have d': "lcd_at sensor_fault_env (Suc 4) = None" using d(2) by simp
  note t = failure_path [OF sensor_fault_loop sensor_fault_second n(1),
      where x = KeyboardInterrupt]
  from t d(1) d' have a:
    "fst (main reference_config sensor_fault_env 5) = Finished
     \<and> \<not> failure_status (fst (main reference_config sensor_fault_env 5))
     \<and> count_list (lcd_log (snd (main reference_config sensor_fault_env 5)))
          (WriteString ''Error Occurred'') = 1
     \<and> sleeps (snd (main reference_config sensor_fault_env 5)) = 1"
    by (simp add: failure_status_def)
  have l0: "\<And>e. loop reference_config e 0 started = (None, started)" by simp
  have f: "lcd_at dead_display_env 1 = Some (Error ''[Errno 5] Input/output error'')"
    "lcd_at flaky_display_env 2 = None"
    "lcd_at flaky_display_env 3 = Some (Error ''[Errno 5] Input/output error'')"
    by (simp_all add: dead_display_env_def flaky_display_env_def steady_env_def)
  have f': "lcd_at flaky_display_env (Suc 2) = Some (Error ''[Errno 5] Input/output error'')"
    using f(3) by simp
  note u = failure_path [OF l0 dead_display_first n(2),
      where x = "Error ''[Errno 5] Input/output error''"]
  from u f(1) have b: "fst (main reference_config dead_display_env 5) =
       Uncaught (Error ''[Errno 5] Input/output error'')"
    by simp
  note v = failure_path [OF l0 flaky_display_first n(2),
      where x = "Error ''[Errno 5] Input/output error''"]
  from v f(2) f' have c: "fst (main reference_config flaky_display_env 5) =
       Uncaught (Error ''[Errno 5] Input/output error'')
     \<and> lcd_log (snd (main reference_config flaky_display_env 5)) = [Clear, Clear]"
    by simp
  from sensor_fault_loop n(1) d a f b c show ?thesis by blast
qed

text \<open>
  Claim C5 as stated fails: when the second read of the temperature raises, the display
  gets "Error Occurred" once and the detail is printed, but the script then ends
  normally, which is not a failure status.
\<close>

theorem failure_status_counterexample:
  "temperature_at sensor_fault_env 1 = Inl (Error ''[Errno 121] Remote I/O error'')
   \<and> fst (main reference_config sensor_fault_env 5) = Finished
   \<and> \<not> failure_status (fst (main reference_config sensor_fault_env 5))
   \<and> lcd_log (snd (main reference_config sensor_fault_env 5)) =
       [Clear, WriteString ''Battery:Healthy'', Crlf, WriteString ''V:12.00 I:500mA'',
        Clear, WriteString ''Error Occurred'']
   \<and> stdout (snd (main reference_config sensor_fault_env 5)) =
       [''Battery monitoring system started...'', ''Error: [Errno 121] Remote I/O error'']"
proof -
  have "temperature_at sensor_fault_env 1 = Inl (Error ''[Errno 121] Remote I/O error'')"
    by (simp add: sensor_fault_env_def)
  then show ?thesis
    by (simp add: sensor_fault_main failure_status_def)
qed

section \<open>Displayed percentages\<close>

subsection \<open>Rounding to the nearest double\<close>

lemma bitlen_eqI: "2 ^ n \<le> x \<Longrightarrow> x < 2 ^ Suc n \<Longrightarrow> bitlen x = int n + 1"
  using bitlen_twopow_add_eq [of "x - 2 ^ n" n] by simp

lemma exponent_ge1:
  assumes "2 ^ n \<le> \<bar>x\<bar>" "\<bar>x\<bar> < 2 ^ Suc n"
  shows "exponent x = int n"
proof -
  have "(1 :: real) \<le> 2 ^ n" by simp
  with assms(1) have one: "1 \<le> \<bar>x\<bar>" by linarith
  have "(2 :: int) ^ n \<le> \<lfloor>\<bar>x\<bar>\<rfloor>"
    using assms(1) by (simp add: le_floor_iff)
  moreover have "\<lfloor>\<bar>x\<bar>\<rfloor> < (2 :: int) ^ Suc n"
    using assms(2) by (simp add: floor_less_iff)
  ultimately have "bitlen \<lfloor>\<bar>x\<bar>\<rfloor> = int n + 1" by (rule bitlen_eqI)
  with one show ?thesis by (simp add: exponent_def)
qed

lemma exponent_lt1:
  assumes "1 / 2 ^ n \<le> \<bar>x\<bar>" "\<bar>x\<bar> < 2 / 2 ^ n" "0 < n" "n \<le> 1022"
  shows "exponent x = - int n"
proof -
  obtain m where n: "n = Suc m" using assms(3) by (cases n) auto
  have "(0 :: real) < 1 / 2 ^ n" by simp
  with assms(1) have pos: "0 < \<bar>x\<bar>" by linarith
  have "(1 :: real) \<le> 2 ^ m" by simp
  then have "(2 :: real) / 2 ^ n \<le> 1" using n by (simp add: field_simps)
  with assms(2) have lt: "\<bar>x\<bar> < 1" by linarith
  have u: "1 / \<bar>x\<bar> \<le> 2 ^ n"
    using assms(1) pos by (simp add: field_simps)
  have l: "2 ^ m < 1 / \<bar>x\<bar>"
    using assms(2) pos n by (simp add: field_simps)
  have "\<lceil>1 / \<bar>x\<bar>\<rceil> \<le> (2 :: int) ^ n"
    using u by (simp add: ceiling_le_iff)
  then have a: "\<lceil>1 / \<bar>x\<bar>\<rceil> - 1 < (2 :: int) ^ Suc m" using n by simp
  have "(2 :: int) ^ m < \<lceil>1 / \<bar>x\<bar>\<rceil>"
    using l by (simp add: less_ceiling_iff)
  then have b: "(2 :: int) ^ m \<le> \<lceil>1 / \<bar>x\<bar>\<rceil> - 1" by simp
  have "bitlen (\<lceil>1 / \<bar>x\<bar>\<rceil> - 1) = int m + 1" using b a by (rule bitlen_eqI)
  with lt n assms(4) show ?thesis by (simp add: exponent_def)
qed

lemma ulp_ge1:
  assumes "2 ^ n \<le> \<bar>x\<bar>" "\<bar>x\<bar> < 2 ^ Suc n" "n \<le> 52"
  shows "ulp x = 1 / 2 ^ (52 - n)"
proof -
  have "int n - 52 \<le> 0" using assms(3) by simp
  moreover have "nat (52 - int n) = 52 - n" by simp
  ultimately show ?thesis
    unfolding ulp_def exponent_ge1 [OF assms(1,2)]
    by (cases "int n - 52 = 0") (simp_all add: power_int_def inverse_eq_divide power_one_over)
qed

lemma ulp_lt1:
  assumes "1 / 2 ^ n \<le> \<bar>x\<bar>" "\<bar>x\<bar> < 2 / 2 ^ n" "0 < n" "n \<le> 1022"
  shows "ulp x = 1 / 2 ^ (52 + n)"
proof -
  have "nat (int n + 52) = 52 + n" by simp
  then show ?thesis
    unfolding ulp_def exponent_lt1 [OF assms]
    by (simp add: power_int_def inverse_eq_divide power_one_over)
qed

lemma fl_ge1:
  assumes "2 ^ n \<le> \<bar>x\<bar>" "\<bar>x\<bar> < 2 ^ Suc n" "n \<le> 52"
  shows "fl x = of_int (round_half_even (x * 2 ^ (52 - n))) / 2 ^ (52 - n)"
proof -
  have "x \<noteq> 0"
  proof
    assume "x = 0"
    with assms(1) have "(2 :: real) ^ n \<le> 0" by simp
    moreover have "(0 :: real) < 2 ^ n" by simp
    ultimately show False by linarith
  qed
  then show ?thesis by (simp add: fl_def ulp_ge1 [OF assms])
qed

lemma fl_lt1:
  assumes "1 / 2 ^ n \<le> \<bar>x\<bar>" "\<bar>x\<bar> < 2 / 2 ^ n" "0 < n" "n \<le> 1022"
  shows "fl x = of_int (round_half_even (x * 2 ^ (52 + n))) / 2 ^ (52 + n)"
proof -
  have "x \<noteq> 0"
  proof
    assume "x = 0"
    with assms(1) have "(1 :: real) / 2 ^ n \<le> 0" by simp
    moreover have "(0 :: real) < 1 / 2 ^ n" by simp
    ultimately show False by linarith
  qed
  then show ?thesis by (simp add: fl_def ulp_lt1 [OF assms])
qed

lemma fl_12_6: "fl 12.6 = 7093169413108531 / 2 ^ 49"
  by (subst fl_ge1 [of 3]) (simp_all add: round_half_even_def)

lemma fl_9: "fl 9 = 9"
  by (subst fl_ge1 [of 3]) (simp_all add: round_half_even_def)

lemma round_half_even_error: "\<bar>of_int (round_half_even t) - t\<bar> \<le> 1/2"
  unfolding round_half_even_def Let_def by (auto; linarith)

lemma round_half_even_le: "t \<le> of_int N \<Longrightarrow> round_half_even t \<le> N"
  unfolding round_half_even_def Let_def by (auto; linarith)

lemma round_half_even_ge: "of_int N \<le> t \<Longrightarrow> N \<le> round_half_even t"
  unfolding round_half_even_def Let_def by (auto; linarith)

lemma round_half_even_near:
  assumes "even N" "\<bar>t\<bar> \<le> 1/2"
  shows "round_half_even (of_int N + t) = N"
proof -
  consider "t = 1/2" | "t = - 1/2" | "- 1/2 < t \<and> t < 0" | "0 \<le> t \<and> t < 1/2"
    using assms(2) by linarith
  then show ?thesis
  proof cases
    case 1
    have "\<lfloor>of_int N + t\<rfloor> = N" using 1 by (simp add: floor_eq_iff)
    with 1 assms(1) show ?thesis by (simp add: round_half_even_def)
  next
    case 2
    have "\<lfloor>of_int N + t\<rfloor> = N - 1" using 2 by (simp add: floor_eq_iff)
    with 2 assms(1) show ?thesis by (simp add: round_half_even_def)
  next
    case 3
    have "\<lfloor>of_int N + t\<rfloor> = N - 1" using 3 by (simp add: floor_eq_iff)
    with 3 show ?thesis by (simp add: round_half_even_def)
  next
    case 4
    have "\<lfloor>of_int N + t\<rfloor> = N" using 4 by (simp add: floor_eq_iff)
    with 4 show ?thesis by (simp add: round_half_even_def)
  qed
qed

lemma exponent_ge: "- 1022 \<le> exponent x"
  by (simp add: exponent_def)

lemma exponent_le6:
  assumes "\<bar>y\<bar> < 128"
  shows "exponent y \<le> 6"
proof (cases "1 \<le> \<bar>y\<bar>")
  case True
  have "\<lfloor>\<bar>y\<bar>\<rfloor> < 2 ^ nat 7" using assms by (simp add: floor_less_iff)
  then have "bitlen \<lfloor>\<bar>y\<bar>\<rfloor> \<le> 7" by (simp add: bitlen_le_iff_power)
  with True show ?thesis by (simp add: exponent_def)
next
  case False
  have "0 \<le> bitlen (\<lceil>1 / \<bar>y\<bar>\<rceil> - 1)" by (rule bitlen_nonneg)
  with False show ?thesis by (simp add: exponent_def)
qed

text \<open>Below 128 the spacing of the doubles is \<open>1 / 2 ^ k\<close> with \<open>k \<ge> 46\<close>.\<close>

lemma ulp_below_128:
  assumes "\<bar>y\<bar> < 128"
  obtains k where "46 \<le> k" and "ulp y = 1 / 2 ^ k"
proof -
  let ?e = "exponent y"
  have e: "?e \<le> 6" using assms by (rule exponent_le6)
  have "ulp y = 1 / 2 ^ nat (52 - ?e)"
    using e by (simp add: ulp_def power_int_def inverse_eq_divide power_one_over)
  moreover have "46 \<le> nat (52 - ?e)" using e by simp
  ultimately show thesis using that by blast
qed

lemma fl_error:
  assumes "\<bar>y\<bar> < 128"
  shows "\<bar>fl y - y\<bar> \<le> 1 / 2 ^ 47"
proof (cases "y = 0")
  case True
  then show ?thesis by (simp add: fl_def)
next
  case False
  from assms obtain k where k: "46 \<le> k" and u: "ulp y = 1 / 2 ^ k" by (rule ulp_below_128)
  let ?t = "y * 2 ^ k"
  have "fl y - y = (of_int (round_half_even ?t) - ?t) / 2 ^ k"
    using False by (simp add: fl_def u field_simps)
  then have "\<bar>fl y - y\<bar> = \<bar>of_int (round_half_even ?t) - ?t\<bar> / 2 ^ k"
    by (simp add: abs_divide)
  also have "\<dots> \<le> (1/2) / 2 ^ k"
    by (intro divide_right_mono round_half_even_error) simp
  also have "\<dots> \<le> (1/2) / 2 ^ 46"
    using k by (intro divide_left_mono power_increasing) simp_all
  finally show ?thesis by simp
qed

lemma fl_range:
  assumes "0 \<le> y" "y \<le> 100"
  shows "0 \<le> fl y \<and> fl y \<le> 100"
proof (cases "y = 0")
  case True
  then show ?thesis by (simp add: fl_def)
next
  case False
  have "\<bar>y\<bar> < 128" using assms by simp
  then obtain k where k: "46 \<le> k" and u: "ulp y = 1 / 2 ^ k" by (rule ulp_below_128)
  let ?t = "y * 2 ^ k"
  have f: "fl y = of_int (round_half_even ?t) / 2 ^ k"
    using False by (simp add: fl_def u)
  have "of_int 0 \<le> ?t" using assms(1) by simp
  then have lo: "0 \<le> round_half_even ?t" by (rule round_half_even_ge)
  have "?t \<le> of_int (100 * 2 ^ k)" using assms(2) by simp
  then have "round_half_even ?t \<le> 100 * 2 ^ k" by (rule round_half_even_le)
  then have "(of_int (round_half_even ?t) :: real) \<le> of_int (100 * 2 ^ k)"
    by (simp only: of_int_le_iff)
  then have hi: "of_int (round_half_even ?t) / 2 ^ k \<le> (100 :: real)"
    by (simp add: field_simps)
  from lo hi f show ?thesis by simp
qed

lemma fl_near_100:
  assumes "\<bar>d\<bar> \<le> 1 / 2 ^ 47"
  shows "fl (100 + d) = 100"
proof -
  have small: "\<bar>d\<bar> < 1" using assms by (rule order_le_less_trans) simp
  have "2 ^ 6 \<le> \<bar>100 + d\<bar>" "\<bar>100 + d\<bar> < 2 ^ Suc 6" using small by simp_all
  then have "fl (100 + d) = of_int (round_half_even ((100 + d) * 2 ^ (52 - 6))) / 2 ^ (52 - 6)"
    by (rule fl_ge1) simp
  moreover have "(100 + d) * 2 ^ (52 - 6) = of_int (100 * 2 ^ 46) + d * 2 ^ 46"
    by (simp add: algebra_simps)
  moreover have "round_half_even (of_int (100 * 2 ^ 46) + d * 2 ^ 46) = 100 * 2 ^ 46"
  proof (rule round_half_even_near)
    show "even (100 * 2 ^ 46 :: int)" by simp
    have "\<bar>d * 2 ^ 46\<bar> = \<bar>d\<bar> * 2 ^ 46" by (simp add: abs_mult)
    also have "\<dots> \<le> (1 / 2 ^ 47) * 2 ^ 46"
      using assms by (intro mult_right_mono) simp_all
    finally show "\<bar>d * 2 ^ 46\<bar> \<le> 1/2" by simp
  qed
  ultimately show ?thesis by simp
qed

lemma fl_sum_100:
  assumes "0 \<le> s" "s \<le> 100"
  shows "fl (s + fl (100 - s)) = 100"
proof -
  have "\<bar>100 - s\<bar> < 128" using assms by simp
  then have "\<bar>fl (100 - s) - (100 - s)\<bar> \<le> 1 / 2 ^ 47" by (rule fl_error)
  then have "fl (100 + (fl (100 - s) - (100 - s))) = 100" by (rule fl_near_100)
  then show ?thesis by (simp add: algebra_simps)
qed

subsection \<open>The percentages of one reading\<close>

lemma soc_f64_range: "soc_f64 cfg v = Inr sv \<Longrightarrow> 0 \<le> sv \<and> sv \<le> 100"
  by (auto simp: soc_f64_def py_truediv_def split: if_splits)

lemma py_int_trunc: "\<bar>of_int (py_int x)\<bar> \<le> \<bar>x\<bar> \<and> \<bar>x - of_int (py_int x)\<bar> < 1"
  unfolding py_int_def by (auto; linarith)

text \<open>
  The roundings of line 41 at 12 V, as conditional equations: the simplifier brings
  the argument into its own normal form before it looks for \<open>fl\<close>.
\<close>

lemma fl_max_voltage: "x = 12.6 \<Longrightarrow> fl x = 7093169413108531 / 2 ^ 49"
proof -
  assume "x = 12.6"
  then show ?thesis by (simp only: fl_12_6)
qed

lemma fl_min_voltage: "x = 9 \<Longrightarrow> fl x = 9"
proof -
  assume "x = 9"
  then show ?thesis by (simp only: fl_9)
qed

lemma fl_3: "fl 3 = 3"
  by (subst fl_ge1 [of 1]) (simp_all add: round_half_even_def)

lemma fl_difference_12: "x = 3 \<Longrightarrow> fl x = 3"
proof -
  assume "x = 3"
  then show ?thesis by (simp only: fl_3)
qed

lemma fl_span0: "fl (7093169413108531 / 2 ^ 49 - 9) = 2026619832316723 / 2 ^ 49"
  by (subst fl_ge1 [of 1]) (simp_all add: round_half_even_def)

lemma fl_span: "x = 7093169413108531 / 2 ^ 49 - 9 \<Longrightarrow> fl x = 2026619832316723 / 2 ^ 49"
proof -
  assume "x = 7093169413108531 / 2 ^ 49 - 9"
  then show ?thesis by (simp only: fl_span0)
qed

lemma fl_quotient_12_0: "fl (3 / (2026619832316723 / 2 ^ 49)) = 7505999378950827 / 2 ^ 53"
  by (subst fl_lt1 [of 1]) (simp_all add: round_half_even_def)

lemma fl_quotient_12:
  "x = 3 / (2026619832316723 / 2 ^ 49) \<Longrightarrow> fl x = 7505999378950827 / 2 ^ 53"
proof -
  assume "x = 3 / (2026619832316723 / 2 ^ 49)"
  then show ?thesis by (simp only: fl_quotient_12_0)
qed

lemma fl_product_12_0: "fl (7505999378950827 / 2 ^ 53 * 100) = 2932031007402667 / 2 ^ 45"
  by (subst fl_ge1 [of 6]) (simp_all add: round_half_even_def)

lemma fl_product_12:
  "x = 7505999378950827 / 2 ^ 53 * 100 \<Longrightarrow> fl x = 2932031007402667 / 2 ^ 45"
proof -
  assume "x = 7505999378950827 / 2 ^ 53 * 100"
  then show ?thesis by (simp only: fl_product_12_0)
qed

lemma soc_f64_12: "soc_f64 reference_config 12 = Inr (2932031007402667 / 2 ^ 45)"
  by (simp add: soc_f64_def double_config_def reference_config_def py_truediv_def
      fl_max_voltage fl_min_voltage fl_difference_12 fl_span fl_quotient_12 fl_product_12)

lemma dod_f64_12: "dod_f64 (2932031007402667 / 2 ^ 45) = 586406201480533 / 2 ^ 45"
  unfolding dod_f64_def by (subst fl_ge1 [of 4]) (simp_all add: round_half_even_def)

lemma py_int_83: "py_int (2932031007402667 / 2 ^ 45) = 83"
  by (simp add: py_int_def)

lemma py_int_16: "py_int (dod_f64 (2932031007402667 / 2 ^ 45)) = 16"
  unfolding dod_f64_12 by (simp add: py_int_def)

text \<open>The roundings at the reading nearest to 10.8 V.\<close>

lemma fl_10_8: "fl 10.8 = 3039929748475085 / 2 ^ 48"
  by (subst fl_ge1 [of 3]) (simp_all add: round_half_even_def)

lemma fl_difference_10_8_0: "fl (3039929748475085 / 2 ^ 48 - 9) = 506654958079181 / 2 ^ 48"
  by (subst fl_ge1 [of 0]) (simp_all add: round_half_even_def)

lemma fl_difference_10_8:
  "x = 3039929748475085 / 2 ^ 48 - 9 \<Longrightarrow> fl x = 506654958079181 / 2 ^ 48"
proof -
  assume "x = 3039929748475085 / 2 ^ 48 - 9"
  then show ?thesis by (simp only: fl_difference_10_8_0)
qed

lemma fl_quotient_10_8_0:
  "fl (506654958079181 / 2 ^ 48 / (2026619832316723 / 2 ^ 49)) = 2251799813685249 / 2 ^ 52"
  by (subst fl_lt1 [of 1]) (simp_all add: round_half_even_def)

lemma fl_quotient_10_8:
  "x = 506654958079181 / 2 ^ 48 / (2026619832316723 / 2 ^ 49)
     \<Longrightarrow> fl x = 2251799813685249 / 2 ^ 52"
proof -
  assume "x = 506654958079181 / 2 ^ 48 / (2026619832316723 / 2 ^ 49)"
  then show ?thesis by (simp only: fl_quotient_10_8_0)
qed

lemma fl_product_10_8_0: "fl (2251799813685249 / 2 ^ 52 * 100) = 7036874417766403 / 2 ^ 47"
  by (subst fl_ge1 [of 5]) (simp_all add: round_half_even_def)

lemma fl_product_10_8:
  "x = 2251799813685249 / 2 ^ 52 * 100 \<Longrightarrow> fl x = 7036874417766403 / 2 ^ 47"
proof -
  assume "x = 2251799813685249 / 2 ^ 52 * 100"
  then show ?thesis by (simp only: fl_product_10_8_0)
qed

lemma soc_f64_10_8:
  "soc_f64 reference_config (3039929748475085 / 2 ^ 48) = Inr (7036874417766403 / 2 ^ 47)"
  by (simp add: soc_f64_def double_config_def reference_config_def py_truediv_def
      fl_max_voltage fl_min_voltage fl_difference_10_8 fl_span fl_quotient_10_8 fl_product_10_8)

lemma dod_f64_10_8: "dod_f64 (7036874417766403 / 2 ^ 47) = 7036874417766397 / 2 ^ 47"
  unfolding dod_f64_def by (subst fl_ge1 [of 5]) (simp_all add: round_half_even_def)

subsection \<open>What pages 2 and 3 show\<close>

lemma cycle_f64_Inr:
  assumes "cycle_f64 cfg e s = (Inr y, s')"
  shows "\<exists>bus_v cur imp soc_v temp hum s2.
     bus_voltage_at e (bus_voltage_reads s) = Inr bus_v
     \<and> current_at e (current_reads s) = Inr cur
     \<and> impedance_f64 bus_v (fl (cur / 1000)) = Inr imp
     \<and> soc_f64 cfg bus_v = Inr soc_v
     \<and> temperature_at e (temperature_reads s) = Inr temp
     \<and> relative_humidity_at e (relative_humidity_reads s) = Inr hum
     \<and> lcd_at e (lcd_calls s) = None
     \<and> show_page e (page s) (get_battery_status (double_config cfg) (Finite bus_v)) bus_v imp
          soc_v (dod_f64 soc_v) temp hum
          (s\<lparr>bus_voltage_reads := Suc (bus_voltage_reads s), current_reads := Suc (current_reads s),
             temperature_reads := Suc (temperature_reads s),
             relative_humidity_reads := Suc (relative_humidity_reads s),
             lcd_calls := Suc (lcd_calls s), lcd_log := lcd_log s @ [Clear]\<rparr>) = (Inr (), s2)
     \<and> sleep_at e (sleeps s2) = None
     \<and> s' = s2\<lparr>page := (page s2 + 1) mod 4, sleeps := Suc (sleeps s2)\<rparr>"
  using assms unfolding cycle_f64_def io_Inr by auto

lemma cycle_f64_page2:
  assumes "cycle_f64 cfg e s = (Inr y, s')" and "page s = 2"
  shows "\<exists>bus_v sv. bus_voltage_at e (bus_voltage_reads s) = Inr bus_v
     \<and> soc_f64 cfg bus_v = Inr sv
     \<and> lcd_log s' = lcd_log s @ [Clear, WriteString ''SVM:OFF'', Crlf, WriteString (page2_line2 sv)]"
proof -
  from cycle_f64_Inr [OF assms(1)] obtain bus_v imp soc_v temp hum s2 where
    r: "bus_voltage_at e (bus_voltage_reads s) = Inr bus_v" "soc_f64 cfg bus_v = Inr soc_v"
    and sp: "show_page e (page s) (get_battery_status (double_config cfg) (Finite bus_v)) bus_v imp
          soc_v (dod_f64 soc_v) temp hum
          (s\<lparr>bus_voltage_reads := Suc (bus_voltage_reads s), current_reads := Suc (current_reads s),
             temperature_reads := Suc (temperature_reads s),
             relative_humidity_reads := Suc (relative_humidity_reads s),
             lcd_calls := Suc (lcd_calls s), lcd_log := lcd_log s @ [Clear]\<rparr>) = (Inr (), s2)"
    and s': "s' = s2\<lparr>page := (page s2 + 1) mod 4, sleeps := Suc (sleeps s2)\<rparr>"
    by blast
  from show_page_Inr [OF sp] assms(2) s'
  have "lcd_log s' = lcd_log s @ [Clear, WriteString ''SVM:OFF'', Crlf, WriteString (page2_line2 soc_v)]"
    by simp
  with r show ?thesis by blast
qed

lemma cycle_f64_page3:
  assumes "cycle_f64 cfg e s = (Inr y, s')" and "page s = 3"
  shows "\<exists>bus_v cur sv imp. bus_voltage_at e (bus_voltage_reads s) = Inr bus_v
     \<and> current_at e (current_reads s) = Inr cur
     \<and> soc_f64 cfg bus_v = Inr sv
     \<and> impedance_f64 bus_v (fl (cur / 1000)) = Inr imp
     \<and> lcd_log s' = lcd_log s @
          [Clear, WriteString ''SVM:OFF'', Crlf, WriteString (page3_line2 (dod_f64 sv) imp)]"
proof -
  from cycle_f64_Inr [OF assms(1)] obtain bus_v cur imp soc_v temp hum s2 where
    r: "bus_voltage_at e (bus_voltage_reads s) = Inr bus_v"
       "current_at e (current_reads s) = Inr cur"
       "impedance_f64 bus_v (fl (cur / 1000)) = Inr imp"
       "soc_f64 cfg bus_v = Inr soc_v"
    and sp: "show_page e (page s) (get_battery_status (double_config cfg) (Finite bus_v)) bus_v imp
          soc_v (dod_f64 soc_v) temp hum
          (s\<lparr>bus_voltage_reads := Suc (bus_voltage_reads s), current_reads := Suc (current_reads s),
             temperature_reads := Suc (temperature_reads s),
             relative_humidity_reads := Suc (relative_humidity_reads s),
             lcd_calls := Suc (lcd_calls s), lcd_log := lcd_log s @ [Clear]\<rparr>) = (Inr (), s2)"
    and s': "s' = s2\<lparr>page := (page s2 + 1) mod 4, sleeps := Suc (sleeps s2)\<rparr>"
    by blast
  from show_page_Inr [OF sp] assms(2) s'
  have "lcd_log s' = lcd_log s @
      [Clear, WriteString ''SVM:OFF'', Crlf, WriteString (page3_line2 (dod_f64 soc_v) imp)]"
    by simp
  with r show ?thesis by blast
qed

subsection \<open>Runs on doubles\<close>

lemma fl_half_0: "fl (1 / 2) = 1 / 2"
  by (subst fl_lt1 [of 1]) (simp_all add: round_half_even_def)

lemma fl_half: "x = 1 / 2 \<Longrightarrow> fl x = 1 / 2"
proof -
  assume "x = 1 / 2"
  then show ?thesis by (simp only: fl_half_0)
qed

lemma fl_noise_floor_0: "fl 0.0001 = 7378697629483821 / 2 ^ 66"
  by (subst fl_lt1 [of 14]) (simp_all add: round_half_even_def)

lemma fl_noise_floor: "x = 0.0001 \<Longrightarrow> fl x = 7378697629483821 / 2 ^ 66"
proof -
  assume "x = 0.0001"
  then show ?thesis by (simp only: fl_noise_floor_0)
qed

lemma fl_24_0: "fl 24 = 24"
  by (subst fl_ge1 [of 4]) (simp_all add: round_half_even_def)

lemma fl_24: "x = 24 \<Longrightarrow> fl x = 24"
proof -
  assume "x = 24"
  then show ?thesis by (simp only: fl_24_0)
qed

lemma fl_21_6_0: "fl (3039929748475085 / 2 ^ 47) = 3039929748475085 / 2 ^ 47"
  by (subst fl_ge1 [of 4]) (simp_all add: round_half_even_def)

lemma fl_21_6: "x = 3039929748475085 / 2 ^ 47 \<Longrightarrow> fl x = 3039929748475085 / 2 ^ 47"
proof -
  assume "x = 3039929748475085 / 2 ^ 47"
  then show ?thesis by (simp only: fl_21_6_0)
qed

lemma fl_reading_10_8: "x = 10.8 \<Longrightarrow> fl x = 3039929748475085 / 2 ^ 48"
proof -
  assume "x = 10.8"
  then show ?thesis by (simp only: fl_10_8)
qed

lemma impedance_f64_steady: "impedance_f64 12 (fl (500 / 1000)) = Inr 24"
  by (simp add: impedance_f64_def py_truediv_def fl_half fl_noise_floor fl_24)

lemma impedance_f64_sagging:
  "impedance_f64 (3039929748475085 / 2 ^ 48) (fl (500 / 1000)) = Inr (3039929748475085 / 2 ^ 47)"
  by (simp add: impedance_f64_def py_truediv_def fl_half fl_noise_floor fl_21_6)

lemma steady_env_simps:
  "bus_voltage_at steady_env k = Inr 12" "current_at steady_env k = Inr 500"
  "temperature_at steady_env k = Inr 25" "relative_humidity_at steady_env k = Inr 40"
  "lcd_at steady_env k = None" "sleep_at steady_env k = None"
  by (simp_all add: steady_env_def)

lemma sagging_env_simps:
  "bus_voltage_at sagging_env k = Inr (3039929748475085 / 2 ^ 48)"
  "current_at sagging_env k = Inr 500"
  "temperature_at sagging_env k = Inr 25" "relative_humidity_at sagging_env k = Inr 40"
  "lcd_at sagging_env k = None" "sleep_at sagging_env k = None"
  by (simp_all add: sagging_env_def steady_env_def fl_reading_10_8)

lemmas io_defs = io_bind_def io_lift_def ina219_bus_voltage_def ina219_current_def
  aht25_temperature_def aht25_relative_humidity_def lcd_call_def lcd_clear_def
  lcd_write_string_def lcd_crlf_def time_sleep_def set_page_def

lemma steady_f64_page2:
  "page s = 2 \<Longrightarrow>
     cycle_f64 reference_config steady_env s =
       (Inr (), snd (cycle_f64 reference_config steady_env s))
     \<and> lcd_log (snd (cycle_f64 reference_config steady_env s)) =
         lcd_log s @ [Clear, WriteString ''SVM:OFF'', Crlf, WriteString ''SOC:83% SOH:OFF'']"
  unfolding cycle_f64_def show_page_def io_defs steady_env_simps
  by (simp add: impedance_f64_steady [simplified] soc_f64_12 page2_line2_def py_int_def
      str_int_def str_nat.simps digit_def)

lemma dod_f64_at_12: "x = 2932031007402667 / 2 ^ 45 \<Longrightarrow> dod_f64 x = 586406201480533 / 2 ^ 45"
proof -
  assume "x = 2932031007402667 / 2 ^ 45"
  then show ?thesis by (simp only: dod_f64_12)
qed

lemma dod_f64_at_10_8:
  "x = 7036874417766403 / 2 ^ 47 \<Longrightarrow> dod_f64 x = 7036874417766397 / 2 ^ 47"
proof -
  assume "x = 7036874417766403 / 2 ^ 47"
  then show ?thesis by (simp only: dod_f64_10_8)
qed

lemma steady_f64_page3:
  "page s = 3 \<Longrightarrow>
     cycle_f64 reference_config steady_env s =
       (Inr (), snd (cycle_f64 reference_config steady_env s))
     \<and> lcd_log (snd (cycle_f64 reference_config steady_env s)) =
         lcd_log s @ [Clear, WriteString ''SVM:OFF'', Crlf, WriteString ''DOD:16% Z:24.0R'']"
  unfolding cycle_f64_def show_page_def io_defs steady_env_simps
  by (simp add: impedance_f64_steady [simplified] soc_f64_12 dod_f64_at_12
      page3_line2_def py_int_def str_int_def str_nat.simps digit_def fmt_f_def
      round_half_even_def frac_digits_def)

lemma sagging_f64_page2:
  "page s = 2 \<Longrightarrow>
     cycle_f64 reference_config sagging_env s =
       (Inr (), snd (cycle_f64 reference_config sagging_env s))
     \<and> lcd_log (snd (cycle_f64 reference_config sagging_env s)) =
         lcd_log s @ [Clear, WriteString ''SVM:OFF'', Crlf, WriteString ''SOC:50% SOH:OFF'']"
  unfolding cycle_f64_def show_page_def io_defs sagging_env_simps
  by (simp add: impedance_f64_sagging [simplified] soc_f64_10_8 [simplified] page2_line2_def
      py_int_def str_int_def str_nat.simps digit_def)

lemma sagging_f64_page3:
  "page s = 3 \<Longrightarrow>
     cycle_f64 reference_config sagging_env s =
       (Inr (), snd (cycle_f64 reference_config sagging_env s))
     \<and> lcd_log (snd (cycle_f64 reference_config sagging_env s)) =
         lcd_log s @ [Clear, WriteString ''SVM:OFF'', Crlf, WriteString ''DOD:49% Z:21.6R'']"
  unfolding cycle_f64_def show_page_def io_defs sagging_env_simps
  by (simp add: impedance_f64_sagging [simplified] soc_f64_10_8 [simplified]
      dod_f64_at_10_8 page3_line2_def py_int_def str_int_def str_nat.simps digit_def
      fmt_f_def round_half_even_def frac_digits_def)

text \<open>
  Claim C10. Pages 2 and 3 show \<open>int(soc)\<close> and \<open>int(dod)\<close>: the truncations toward
  zero of the clamped doubles of lines 41 and 42, each an integer in [0, 100]. The two
  are truncated independently, so the shown percentages can add up to 99 although the
  two doubles add up to exactly 100 in double arithmetic: at 12 V with the shipped
  bounds the state of charge is 83.33333333333334 (2932031007402667 / 2 ^ 45), shown
  as 83, and the depth of discharge 16.666666666666657, shown as 16.
\<close>

theorem displayed_percentages:
  "(cycle_f64 cfg e s = (Inr (), s') \<and> page s = 2 \<longrightarrow>
      (\<exists>bus_v sv. bus_voltage_at e (bus_voltage_reads s) = Inr bus_v
         \<and> soc_f64 cfg bus_v = Inr sv
         \<and> lcd_log s' = lcd_log s @
              [Clear, WriteString ''SVM:OFF'', Crlf,
               WriteString (''SOC:'' @ str_int (py_int sv) @ ''% SOH:OFF'')]
         \<and> 0 \<le> py_int sv \<and> py_int sv \<le> 100))
   \<and> (cycle_f64 cfg e s = (Inr (), s') \<and> page s = 3 \<longrightarrow>
      (\<exists>bus_v cur sv imp. bus_voltage_at e (bus_voltage_reads s) = Inr bus_v
         \<and> current_at e (current_reads s) = Inr cur
         \<and> soc_f64 cfg bus_v = Inr sv
         \<and> impedance_f64 bus_v (fl (cur / 1000)) = Inr imp
         \<and> lcd_log s' = lcd_log s @
              [Clear, WriteString ''SVM:OFF'', Crlf,
               WriteString (''DOD:'' @ str_int (py_int (dod_f64 sv)) @ ''% Z:'' @ fmt_f 1 imp
                            @ ''R'')]
         \<and> 0 \<le> py_int (dod_f64 sv) \<and> py_int (dod_f64 sv) \<le> 100))
   \<and> \<bar>of_int (py_int x)\<bar> \<le> \<bar>x\<bar> \<and> \<bar>x - of_int (py_int x)\<bar> < 1
   \<and> (soc_f64 cfg v = Inr sw \<longrightarrow>
        0 \<le> sw \<and> sw \<le> 100 \<and> 0 \<le> dod_f64 sw \<and> dod_f64 sw \<le> 100
        \<and> fl (sw + dod_f64 sw) = 100)
   \<and> soc_f64 reference_config 12 = Inr (2932031007402667 / 2 ^ 45)
   \<and> py_int (2932031007402667 / 2 ^ 45) = 83
   \<and> py_int (dod_f64 (2932031007402667 / 2 ^ 45)) = 16
   \<and> fl (2932031007402667 / 2 ^ 45 + dod_f64 (2932031007402667 / 2 ^ 45)) = 100"
proof (intro conjI impI)
  assume a: "cycle_f64 cfg e s = (Inr (), s') \<and> page s = 2"
  then obtain bus_v sv where r: "bus_voltage_at e (bus_voltage_reads s) = Inr bus_v"
    "soc_f64 cfg bus_v = Inr sv"
    "lcd_log s' = lcd_log s @ [Clear, WriteString ''SVM:OFF'', Crlf, WriteString (page2_line2 sv)]"
    using cycle_f64_page2 [of cfg e s "()" s'] by blast
  have "0 \<le> py_int sv \<and> py_int sv \<le> 100"
    using soc_f64_range [OF r(2)] by (intro py_int_range) simp_all
  with r show "\<exists>bus_v sv. bus_voltage_at e (bus_voltage_reads s) = Inr bus_v
         \<and> soc_f64 cfg bus_v = Inr sv
         \<and> lcd_log s' = lcd_log s @
              [Clear, WriteString ''SVM:OFF'', Crlf,
               WriteString (''SOC:'' @ str_int (py_int sv) @ ''% SOH:OFF'')]
         \<and> 0 \<le> py_int sv \<and> py_int sv \<le> 100"
    unfolding page2_line2_def by blast
next
  assume a: "cycle_f64 cfg e s = (Inr (), s') \<and> page s = 3"
  then obtain bus_v cur sv imp where r: "bus_voltage_at e (bus_voltage_reads s) = Inr bus_v"
    "current_at e (current_reads s) = Inr cur"
    "soc_f64 cfg bus_v = Inr sv"
    "impedance_f64 bus_v (fl (cur / 1000)) = Inr imp"
    "lcd_log s' = lcd_log s @
       [Clear, WriteString ''SVM:OFF'', Crlf, WriteString (page3_line2 (dod_f64 sv) imp)]"
    using cycle_f64_page3 [of cfg e s "()" s'] by blast
  have "0 \<le> 100 - sv \<and> 100 - sv \<le> 100" using soc_f64_range [OF r(3)] by simp
  then have "0 \<le> dod_f64 sv \<and> dod_f64 sv \<le> 100"
    unfolding dod_f64_def by (intro fl_range) simp_all
  then have "0 \<le> py_int (dod_f64 sv) \<and> py_int (dod_f64 sv) \<le> 100"
    by (intro py_int_range) simp_all
  with r show "\<exists>bus_v cur sv imp. bus_voltage_at e (bus_voltage_reads s) = Inr bus_v
         \<and> current_at e (current_reads s) = Inr cur
         \<and> soc_f64 cfg bus_v = Inr sv
         \<and> impedance_f64 bus_v (fl (cur / 1000)) = Inr imp
         \<and> lcd_log s' = lcd_log s @
              [Clear, WriteString ''SVM:OFF'', Crlf,
               WriteString (''DOD:'' @ str_int (py_int (dod_f64 sv)) @ ''% Z:'' @ fmt_f 1 imp
                            @ ''R'')]
         \<and> 0 \<le> py_int (dod_f64 sv) \<and> py_int (dod_f64 sv) \<le> 100"
    unfolding page3_line2_def by blast
next
  show "\<bar>of_int (py_int x)\<bar> \<le> \<bar>x\<bar>" "\<bar>x - of_int (py_int x)\<bar> < 1"
    using py_int_trunc [of x] by simp_all
next
  assume q: "soc_f64 cfg v = Inr sw"
  then have r: "0 \<le> sw \<and> sw \<le> 100" by (rule soc_f64_range)
  then show "0 \<le> sw" "sw \<le> 100" by simp_all
  have "0 \<le> 100 - sw \<and> 100 - sw \<le> 100" using r by simp
  then have "0 \<le> dod_f64 sw \<and> dod_f64 sw \<le> 100"
    unfolding dod_f64_def by (intro fl_range) simp_all
  then show "0 \<le> dod_f64 sw" "dod_f64 sw \<le> 100" by simp_all
  show "fl (sw + dod_f64 sw) = 100"
    unfolding dod_f64_def using r by (intro fl_sum_100) simp_all
next
  show "soc_f64 reference_config 12 = Inr (2932031007402667 / 2 ^ 45)" by (rule soc_f64_12)
  show "py_int (2932031007402667 / 2 ^ 45) = 83" by (rule py_int_83)
  show "py_int (dod_f64 (2932031007402667 / 2 ^ 45)) = 16" by (rule py_int_16)
  show "fl (2932031007402667 / 2 ^ 45 + dod_f64 (2932031007402667 / 2 ^ 45)) = 100"
    unfolding dod_f64_def by (intro fl_sum_100) simp_all
qed

theorem displayed_percentages_witness:
  "cycle_f64 reference_config steady_env (started\<lparr>page := 2\<rparr>) =
     (Inr (), snd (cycle_f64 reference_config steady_env (started\<lparr>page := 2\<rparr>)))
   \<and> page (started\<lparr>page := 2\<rparr>) = 2
   \<and> (\<exists>sv. soc_f64 reference_config 12 = Inr sv
         \<and> lcd_log (snd (cycle_f64 reference_config steady_env (started\<lparr>page := 2\<rparr>))) =
             [Clear, WriteString ''SVM:OFF'', Crlf,
              WriteString (''SOC:'' @ str_int (py_int sv) @ ''% SOH:OFF'')]
         \<and> 0 \<le> py_int sv \<and> py_int sv \<le> 100)
   \<and> lcd_log (snd (cycle_f64 reference_config steady_env (started\<lparr>page := 2\<rparr>))) =
       [Clear, WriteString ''SVM:OFF'', Crlf, WriteString ''SOC:83% SOH:OFF'']
   \<and> cycle_f64 reference_config steady_env (started\<lparr>page := 3\<rparr>) =
     (Inr (), snd (cycle_f64 reference_config steady_env (started\<lparr>page := 3\<rparr>)))
   \<and> lcd_log (snd (cycle_f64 reference_config steady_env (started\<lparr>page := 3\<rparr>))) =
       [Clear, WriteString ''SVM:OFF'', Crlf, WriteString ''DOD:16% Z:24.0R'']
   \<and> soc_f64 reference_config 12 = Inr (2932031007402667 / 2 ^ 45)
   \<and> py_int (2932031007402667 / 2 ^ 45) + py_int (dod_f64 (2932031007402667 / 2 ^ 45)) = 99
   \<and> fl (2932031007402667 / 2 ^ 45 + dod_f64 (2932031007402667 / 2 ^ 45)) = 100
   \<and> lcd_log (snd (cycle_f64 reference_config sagging_env (started\<lparr>page := 2\<rparr>))) =
       [Clear, WriteString ''SVM:OFF'', Crlf, WriteString ''SOC:50% SOH:OFF'']
   \<and> lcd_log (snd (cycle_f64 reference_config sagging_env (started\<lparr>page := 3\<rparr>))) =
       [Clear, WriteString ''SVM:OFF'', Crlf, WriteString ''DOD:49% Z:21.6R'']"
proof -
  have p: "page (started\<lparr>page := 2\<rparr>) = 2" "page (started\<lparr>page := 3\<rparr>) = 3" by simp_all
  have g: "lcd_log (started\<lparr>page := 2\<rparr>) = []" "lcd_log (started\<lparr>page := 3\<rparr>) = []"
    by (simp_all add: started_def py_print_def initial_state_def)
  note a = steady_f64_page2 [OF p(1)] and b = steady_f64_page3 [OF p(2)]
  note c = sagging_f64_page2 [OF p(1)] and d = sagging_f64_page3 [OF p(2)]
  note t = displayed_percentages [of reference_config steady_env "started\<lparr>page := 2\<rparr>"
      "snd (cycle_f64 reference_config steady_env (started\<lparr>page := 2\<rparr>))" 0 12
      "2932031007402667 / 2 ^ 45"]
  from a have a1: "cycle_f64 reference_config steady_env (started\<lparr>page := 2\<rparr>) =
     (Inr (), snd (cycle_f64 reference_config steady_env (started\<lparr>page := 2\<rparr>)))"
    by (rule conjunct1)
  from t a1 p(1) obtain bus_v sv where
    r: "bus_voltage_at steady_env (bus_voltage_reads (started\<lparr>page := 2\<rparr>)) = Inr bus_v"
      "soc_f64 reference_config bus_v = Inr sv"
      "lcd_log (snd (cycle_f64 reference_config steady_env (started\<lparr>page := 2\<rparr>))) =
         lcd_log (started\<lparr>page := 2\<rparr>) @
           [Clear, WriteString ''SVM:OFF'', Crlf,
            WriteString (''SOC:'' @ str_int (py_int sv) @ ''% SOH:OFF'')]"
      "0 \<le> py_int sv" "py_int sv \<le> 100"
    by blast
  from r(1) have "bus_v = 12" unfolding steady_env_simps by simp
  with r have q: "\<exists>sv. soc_f64 reference_config 12 = Inr sv
         \<and> lcd_log (snd (cycle_f64 reference_config steady_env (started\<lparr>page := 2\<rparr>))) =
             [Clear, WriteString ''SVM:OFF'', Crlf,
              WriteString (''SOC:'' @ str_int (py_int sv) @ ''% SOH:OFF'')]
         \<and> 0 \<le> py_int sv \<and> py_int sv \<le> 100"
    unfolding g by auto
  from t have e: "soc_f64 reference_config 12 = Inr (2932031007402667 / 2 ^ 45)"
    and f: "py_int (2932031007402667 / 2 ^ 45) = 83"
      "py_int (dod_f64 (2932031007402667 / 2 ^ 45)) = 16"
    and h: "fl (2932031007402667 / 2 ^ 45 + dod_f64 (2932031007402667 / 2 ^ 45)) = 100"
    by blast+
  have i: "py_int (2932031007402667 / 2 ^ 45) + py_int (dod_f64 (2932031007402667 / 2 ^ 45)) = 99"
    unfolding f by simp
  from a b c d have l: "cycle_f64 reference_config steady_env (started\<lparr>page := 3\<rparr>) =
       (Inr (), snd (cycle_f64 reference_config steady_env (started\<lparr>page := 3\<rparr>)))"
    "lcd_log (snd (cycle_f64 reference_config steady_env (started\<lparr>page := 2\<rparr>))) =
       [Clear, WriteString ''SVM:OFF'', Crlf, WriteString ''SOC:83% SOH:OFF'']"
    "lcd_log (snd (cycle_f64 reference_config steady_env (started\<lparr>page := 3\<rparr>))) =
       [Clear, WriteString ''SVM:OFF'', Crlf, WriteString ''DOD:16% Z:24.0R'']"
    "lcd_log (snd (cycle_f64 reference_config sagging_env (started\<lparr>page := 2\<rparr>))) =
       [Clear, WriteString ''SVM:OFF'', Crlf, WriteString ''SOC:50% SOH:OFF'']"
    "lcd_log (snd (cycle_f64 reference_config sagging_env (started\<lparr>page := 3\<rparr>))) =
       [Clear, WriteString ''SVM:OFF'', Crlf, WriteString ''DOD:49% Z:21.6R'']"
    unfolding g by simp_all
  from a1 p(1) q l e i h show ?thesis by blast
qed

end
